theory Spec2Isabelle
  imports Complex_Main
begin

section \<open>Python values, exceptions and strings\<close>

text \<open>
  A float is a finite value, an infinity or NaN.  The code never computes with one: it
  tests the type, compares with \<open>-1\<close>, stores and copies.  Equality here is identity of
  the value, so NaN is the same as NaN.
\<close>

datatype float64 = Float real | PosInf | NegInf | NaN

instantiation float64 :: zero
begin

definition zero_float64_def: "0 = Float 0"

instance ..

end

text \<open>
  The attributes of a parameter object are dynamically typed, and \<open>check()\<close> inspects
  their run-time type.  A value is therefore a tagged union.

  \<open>PyObject\<close> stands for an instance of any other class (a \<open>Fraction\<close>, a numpy scalar,
  an enum member, ...), a class that is not named like one of the built-in types above
  and has no method \<open>lower\<close>.  Such an object answers the tests \<open>check()\<close> makes by itself,
  and the record keeps its answers: whether it is an instance of \<open>int\<close>, of \<open>float\<close>, of
  \<open>list\<close> (by subclassing); whether it compares equal to an integer, to a string, to
  \<open>None\<close>; whether it is less or greater than an integer.
\<close>

record other_object =
  instance_of_int :: bool
  instance_of_float :: bool
  instance_of_list :: bool
  equals_int :: "int \<Rightarrow> bool"
  equals_str :: "string \<Rightarrow> bool"
  equals_none :: bool
  less_int :: "int \<Rightarrow> bool"
  greater_int :: "int \<Rightarrow> bool"

datatype pyval =
    PyNone
  | PyBool bool
  | PyInt int
  | PyFloat float64
  | PyStr string
  | PyList "pyval list"
  | PyTuple "pyval list"
  | PySet "pyval list"
  | PyObject other_object

text \<open>Every \<open>raise\<close> of the source is a value of this type, with the exception class kept.\<close>

datatype error =
    ValueError string
  | PermissionError string
  | NotImplementedError string
  | AttributeError string
  | KeyError string
  | TypeError string
  | IndexError string
  | UnboundLocalError string

text \<open>\<open>type(v).__name__\<close>\<close>

fun type_name :: "pyval \<Rightarrow> string" where
  "type_name PyNone = ''NoneType''"
| "type_name (PyBool b) = ''bool''"
| "type_name (PyInt i) = ''int''"
| "type_name (PyFloat r) = ''float''"
| "type_name (PyStr s) = ''str''"
| "type_name (PyList xs) = ''list''"
| "type_name (PyTuple xs) = ''tuple''"
| "type_name (PySet xs) = ''set''"
| "type_name (PyObject obj) = ''object''"

text \<open>
  \<open>isinstance(v, int)\<close> and its like: \<open>bool\<close> is a subclass of \<open>int\<close> and cannot be
  subclassed itself; an object of another class says what it is an instance of.
\<close>

fun isinstance_int :: "pyval \<Rightarrow> bool" where
  "isinstance_int (PyBool b) = True"
| "isinstance_int (PyInt i) = True"
| "isinstance_int (PyObject obj) = instance_of_int obj"
| "isinstance_int v = False"

fun isinstance_float :: "pyval \<Rightarrow> bool" where
  "isinstance_float (PyFloat r) = True"
| "isinstance_float (PyObject obj) = instance_of_float obj"
| "isinstance_float v = False"

fun isinstance_bool :: "pyval \<Rightarrow> bool" where
  "isinstance_bool (PyBool b) = True"
| "isinstance_bool v = False"

fun isinstance_list :: "pyval \<Rightarrow> bool" where
  "isinstance_list (PyList xs) = True"
| "isinstance_list (PyObject obj) = instance_of_list obj"
| "isinstance_list v = False"

text \<open>
  The integer of a value whose type name is \<open>int\<close>.  The source only reads it behind the
  test \<open>type(v).__name__ == "int"\<close>, which short-circuits, so the last equation is never
  reached.
\<close>

fun int_of :: "pyval \<Rightarrow> int" where
  "int_of (PyInt i) = i"
| "int_of v = 0"

text \<open>
  \<open>v < i\<close> and \<open>v > i\<close> for an integer \<open>i\<close>.  The source only makes these comparisons
  behind \<open>isinstance(v, int)\<close>, which short-circuits, so the last equations are never
  reached.
\<close>

fun py_lt_int :: "pyval \<Rightarrow> int \<Rightarrow> bool" where
  "py_lt_int (PyInt j) i = (j < i)"
| "py_lt_int (PyBool b) i = ((if b then 1 else 0) < i)"
| "py_lt_int (PyObject obj) i = less_int obj i"
| "py_lt_int v i = False"

fun py_gt_int :: "pyval \<Rightarrow> int \<Rightarrow> bool" where
  "py_gt_int (PyInt j) i = (j > i)"
| "py_gt_int (PyBool b) i = ((if b then 1 else 0) > i)"
| "py_gt_int (PyObject obj) i = greater_int obj i"
| "py_gt_int v i = False"

text \<open>
  \<open>v == i\<close> for an integer \<open>i\<close>, \<open>v == s\<close> for a string \<open>s\<close> and \<open>v == None\<close>; \<open>v != i\<close> is
  the negation of the first.  Numbers compare by value, an object of another class
  decides by itself, and anything else is unequal.
\<close>

fun py_eq_int :: "pyval \<Rightarrow> int \<Rightarrow> bool" where
  "py_eq_int (PyInt j) i = (j = i)"
| "py_eq_int (PyBool b) i = ((if b then 1 else 0) = i)"
| "py_eq_int (PyFloat (Float r)) i = (r = of_int i)"
| "py_eq_int (PyObject obj) i = equals_int obj i"
| "py_eq_int v i = False"

fun py_eq_str :: "pyval \<Rightarrow> string \<Rightarrow> bool" where
  "py_eq_str (PyStr t) s = (t = s)"
| "py_eq_str (PyObject obj) s = equals_str obj s"
| "py_eq_str v s = False"

fun py_eq_none :: "pyval \<Rightarrow> bool" where
  "py_eq_none PyNone = True"
| "py_eq_none (PyObject obj) = equals_none obj"
| "py_eq_none v = False"

text \<open>
  Strings are ASCII.  \<open>str.lower()\<close> and \<open>str.upper()\<close> change the letters; every other
  character is left as it is.
\<close>

definition ascii_uppercase :: string where
  "ascii_uppercase = ''ABCDEFGHIJKLMNOPQRSTUVWXYZ''"

definition ascii_lowercase :: string where
  "ascii_lowercase = ''abcdefghijklmnopqrstuvwxyz''"

definition lower_char :: "char \<Rightarrow> char" where
  "lower_char ch = (case map_of (zip ascii_uppercase ascii_lowercase) ch of
                     Some d \<Rightarrow> d | None \<Rightarrow> ch)"

definition upper_char :: "char \<Rightarrow> char" where
  "upper_char ch = (case map_of (zip ascii_lowercase ascii_uppercase) ch of
                     Some d \<Rightarrow> d | None \<Rightarrow> ch)"

definition lower :: "string \<Rightarrow> string" where
  "lower s = map lower_char s"

definition upper :: "string \<Rightarrow> string" where
  "upper s = map upper_char s"

text \<open>\<open>str(i)\<close> for an integer, as the f-strings of the tensor names use it.\<close>

fun str_nat :: "nat \<Rightarrow> string" where
  "str_nat k = (if k < 10 then [''0123456789'' ! k]
                else str_nat (k div 10) @ [''0123456789'' ! (k mod 10)])"

declare str_nat.simps [simp del]

definition str_int :: "int \<Rightarrow> string" where
  "str_int i = (if i < 0 then CHR ''-'' # str_nat (nat (- i)) else str_nat (nat i))"


section \<open>\<open>hetero_sshe_lr_param.py\<close>: the parameter object and its \<open>check()\<close>\<close>

text \<open>
  The module \<open>federatedml.util.consts\<close> is not part of the sources at hand; the constants
  \<open>check()\<close> reads from it are the fields of this record.
\<close>

record fate_consts =
  MIN_BATCH_SIZE :: int
  ALLOW_REVIEW_GUEST_ONLY :: bool
  L1_PENALTY :: string
  L2_PENALTY :: string
  PAILLIER :: string

text \<open>
  \<open>InitParam\<close>, \<open>EncryptParam\<close>, \<open>PredictParam\<close> and \<open>StepwiseParam\<close> are classes of
  other modules.  Of each, the record keeps the attributes this code reads and the
  exception its own \<open>check()\<close> raises, if any.  \<open>encrypt_method\<close> is the attribute
  \<open>EncryptParam.method\<close>.
\<close>

record init_param =
  fit_intercept :: bool
  init_param_check :: "error option"

record encrypt_param =
  encrypt_method :: pyval
  key_length :: int
  encrypt_param_check :: "error option"

record predict_param =
  predict_param_check :: "error option"

record stepwise_param =
  stepwise_param_check :: "error option"

text \<open>The attributes \<open>LogisticRegressionParam.__init__\<close> sets.\<close>

record lr_param =
  penalty :: pyval
  tol :: pyval
  alpha :: pyval
  optimizer :: pyval
  batch_size :: pyval
  learning_rate :: pyval
  init_param :: init_param
  max_iter :: pyval
  early_stop :: pyval
  encrypt_param :: encrypt_param
  predict_param :: predict_param
  random_field :: pyval
  decay :: pyval
  decay_sqrt :: pyval
  multi_class :: pyval
  validation_freqs :: pyval
  stepwise_param :: stepwise_param
  early_stopping_rounds :: pyval
  metrics :: pyval
  use_first_metric_only :: pyval
  floating_point_precision :: pyval
  use_mix_rand :: pyval
  review_strategy :: pyval

text \<open>
  The object \<open>LogisticRegressionParam(...)\<close> builds from its default arguments, the four
  sub-objects given.
\<close>

definition default_param ::
  "init_param \<Rightarrow> encrypt_param \<Rightarrow> predict_param \<Rightarrow> stepwise_param \<Rightarrow> lr_param" where
  "default_param ip ep pp sp =
     \<lparr> penalty = PyStr ''L2'',
       tol = PyFloat (Float (1 / 10000)),
       alpha = PyFloat (Float 1),
       optimizer = PyStr ''rmsprop'',
       batch_size = PyInt (- 1),
       learning_rate = PyFloat (Float (1 / 100)),
       init_param = ip,
       max_iter = PyInt 100,
       early_stop = PyStr ''diff'',
       encrypt_param = ep,
       predict_param = pp,
       random_field = PyInt 1048576,
       decay = PyInt 1,
       decay_sqrt = PyBool True,
       multi_class = PyStr ''ovr'',
       validation_freqs = PyNone,
       stepwise_param = sp,
       early_stopping_rounds = PyNone,
       metrics = PyList [],
       use_first_metric_only = PyBool False,
       floating_point_precision = PyInt 23,
       use_mix_rand = PyBool False,
       review_strategy = PyStr ''respectively'' \<rparr>"

text \<open>
  Modelled from the spec: \<open>BaseParam.check_valid_value\<close>, inherited from a module that is
  not part of the sources at hand.  The spec lists the recognised values
  (\<open>review_strategy \<in> {respectively, all_review_in_guest}\<close>) and makes any other value a
  configuration error.
\<close>

definition check_valid_value :: "string \<Rightarrow> string \<Rightarrow> string list \<Rightarrow> error + bool" where
  "check_valid_value v descr valid_values =
     (if v \<notin> set valid_values then Inl (ValueError (descr @ '' is not supported''))
      else Inr True)"

text \<open>
  \<open>check()\<close> is a sequence of gates, each of which raises or falls through to the next;
  some normalise an attribute on the way.  Each gate below is one \<open>if\<close> block of the
  source, in the source's order; the messages are the source's, without the formatted
  values and the quotation marks.
\<close>

fun seq_checks :: "('a \<Rightarrow> error + 'a) list \<Rightarrow> 'a \<Rightarrow> error + 'a" where
  "seq_checks [] p = Inr p"
| "seq_checks (g # gs) p = (case g p of Inl e \<Rightarrow> Inl e | Inr p' \<Rightarrow> seq_checks gs p')"

definition check_penalty :: "fate_consts \<Rightarrow> lr_param \<Rightarrow> error + lr_param" where
  "check_penalty c p =
     (case penalty p of
        PyNone \<Rightarrow> Inr p
      | PyStr s \<Rightarrow>
          (if upper s \<notin> set [L1_PENALTY c, L2_PENALTY c, ''NONE'']
           then Inl (ValueError ''logistic_param's penalty not supported, penalty should be L1, L2 or none'')
           else Inr (p\<lparr>penalty := PyStr (upper s)\<rparr>))
      | v \<Rightarrow> Inl (ValueError ''logistic_param's penalty not supported, should be str type''))"

definition check_tol :: "lr_param \<Rightarrow> error + lr_param" where
  "check_tol p =
     (if \<not> (isinstance_int (tol p) \<or> isinstance_float (tol p))
      then Inl (ValueError ''logistic_param's tol not supported, should be float type'')
      else Inr p)"

definition check_alpha :: "lr_param \<Rightarrow> error + lr_param" where
  "check_alpha p =
     (if type_name (alpha p) \<notin> set [''float'', ''int'']
      then Inl (ValueError ''logistic_param's alpha not supported, should be float or int type'')
      else Inr p)"

definition check_optimizer :: "lr_param \<Rightarrow> error + lr_param" where
  "check_optimizer p =
     (case optimizer p of
        PyStr s \<Rightarrow>
          (if lower s \<notin> set [''sgd'', ''rmsprop'', ''adam'', ''adagrad'', ''nesterov_momentum_sgd'', ''sqn'']
           then Inl (ValueError ''logistic_param's optimizer not supported'')
           else Inr (p\<lparr>optimizer := PyStr (lower s)\<rparr>))
      | v \<Rightarrow> Inl (ValueError ''logistic_param's optimizer not supported, should be str type''))"

definition check_batch_size :: "fate_consts \<Rightarrow> lr_param \<Rightarrow> error + lr_param" where
  "check_batch_size c p =
     (if \<not> py_eq_int (batch_size p) (- 1)
      then (if type_name (batch_size p) \<notin> set [''int'']
               \<or> int_of (batch_size p) < MIN_BATCH_SIZE c
            then Inl (ValueError ''logistic_param's batch_size not supported, should be larger than MIN_BATCH_SIZE or -1 represent for all data'')
            else Inr p)
      else Inr p)"

definition check_learning_rate :: "lr_param \<Rightarrow> error + lr_param" where
  "check_learning_rate p =
     (if \<not> (isinstance_float (learning_rate p) \<or> isinstance_int (learning_rate p))
      then Inl (ValueError ''logistic_param's learning_rate not supported, should be float or int type'')
      else Inr p)"

definition check_init_param :: "lr_param \<Rightarrow> error + lr_param" where
  "check_init_param p =
     (case init_param_check (init_param p) of Some e \<Rightarrow> Inl e | None \<Rightarrow> Inr p)"

definition check_max_iter :: "lr_param \<Rightarrow> error + lr_param" where
  "check_max_iter p =
     (if type_name (max_iter p) \<noteq> ''int''
      then Inl (ValueError ''logistic_param's max_iter not supported, should be int type'')
      else if int_of (max_iter p) \<le> 0
      then Inl (ValueError ''logistic_param's max_iter must be greater or equal to 1'')
      else Inr p)"

definition check_early_stop :: "lr_param \<Rightarrow> error + lr_param" where
  "check_early_stop p =
     (case early_stop p of
        PyStr s \<Rightarrow>
          (if lower s \<notin> set [''diff'', ''abs'', ''weight_diff'']
           then Inl (ValueError ''logistic_param's early_stop not supported'')
           else Inr (p\<lparr>early_stop := PyStr (lower s)\<rparr>))
      | v \<Rightarrow> Inl (ValueError ''logistic_param's early_stop not supported, should be str type''))"

definition check_encrypt_param :: "fate_consts \<Rightarrow> lr_param \<Rightarrow> error + lr_param" where
  "check_encrypt_param c p =
     (case encrypt_param_check (encrypt_param p) of
        Some e \<Rightarrow> Inl e
      | None \<Rightarrow>
          (case predict_param_check (predict_param p) of
             Some e \<Rightarrow> Inl e
           | None \<Rightarrow>
               (if \<not> (py_eq_str (encrypt_method (encrypt_param p)) (PAILLIER c)
                        \<or> py_eq_none (encrypt_method (encrypt_param p)))
                then Inl (ValueError ''logistic_param's encrypted method support Paillier or None only'')
                else Inr p)))"

definition check_decay :: "lr_param \<Rightarrow> error + lr_param" where
  "check_decay p =
     (if type_name (decay p) \<notin> set [''int'', ''float'']
      then Inl (ValueError ''logistic_param's decay not supported, should be int or float'')
      else Inr p)"

definition check_decay_sqrt :: "lr_param \<Rightarrow> error + lr_param" where
  "check_decay_sqrt p =
     (if type_name (decay_sqrt p) \<notin> set [''bool'']
      then Inl (ValueError ''logistic_param's decay_sqrt not supported, should be bool'')
      else Inr p)"

definition check_stepwise_param :: "lr_param \<Rightarrow> error + lr_param" where
  "check_stepwise_param p =
     (case stepwise_param_check (stepwise_param p) of Some e \<Rightarrow> Inl e | None \<Rightarrow> Inr p)"

definition check_validation_freqs :: "lr_param \<Rightarrow> error + lr_param" where
  "check_validation_freqs p =
     (if validation_freqs p \<noteq> PyNone
      then (if type_name (validation_freqs p) \<notin> set [''int'', ''list'', ''tuple'', ''set'']
            then Inl (ValueError ''validation strategy param's validate_freqs's type not supported'')
            else if type_name (validation_freqs p) = ''int'' \<and> int_of (validation_freqs p) \<le> 0
            then Inl (ValueError ''validation strategy param's validate_freqs should greater than 0'')
            else Inr p)
      else Inr p)"

definition check_early_stopping_rounds :: "lr_param \<Rightarrow> error + lr_param" where
  "check_early_stopping_rounds p =
     (if early_stopping_rounds p = PyNone then Inr p
      else if isinstance_int (early_stopping_rounds p)
      then (if py_lt_int (early_stopping_rounds p) 1
            then Inl (ValueError ''early stopping rounds should be larger than 0 when it's integer'')
            else if validation_freqs p = PyNone
            then Inl (ValueError ''validation freqs must be set when early stopping is enabled'')
            else Inr p)
      else Inr p)"

definition check_metrics :: "lr_param \<Rightarrow> error + lr_param" where
  "check_metrics p =
     (if metrics p \<noteq> PyNone \<and> \<not> isinstance_list (metrics p)
      then Inl (ValueError ''metrics should be a list'')
      else Inr p)"

definition check_use_first_metric_only :: "lr_param \<Rightarrow> error + lr_param" where
  "check_use_first_metric_only p =
     (if \<not> isinstance_bool (use_first_metric_only p)
      then Inl (ValueError ''use_first_metric_only should be a boolean'')
      else Inr p)"

definition check_floating_point_precision :: "lr_param \<Rightarrow> error + lr_param" where
  "check_floating_point_precision p =
     (if floating_point_precision p \<noteq> PyNone
         \<and> (\<not> isinstance_int (floating_point_precision p)
              \<or> py_lt_int (floating_point_precision p) 0
              \<or> py_gt_int (floating_point_precision p) 63)
      then Inl (ValueError ''floating point precision should be null or a integer between 0 and 63'')
      else Inr p)"

text \<open>
  The last block: lower-case the strategy (an attribute that is not a string has no
  \<open>lower\<close>), test it against the two recognised names, then the authorisation gate.
\<close>

definition check_review_strategy :: "fate_consts \<Rightarrow> lr_param \<Rightarrow> error + lr_param" where
  "check_review_strategy c p =
     (case review_strategy p of
        PyStr s \<Rightarrow>
          (case check_valid_value (lower s) ''logistic_param's'' [''respectively'', ''all_review_in_guest''] of
             Inl e \<Rightarrow> Inl e
           | Inr ok \<Rightarrow>
               (if \<not> ALLOW_REVIEW_GUEST_ONLY c \<and> lower s = ''all_review_in_guest''
                then Inl (PermissionError ''review strategy: all_review_in_guest has not been authorized.'')
                else Inr (p\<lparr>review_strategy := PyStr (lower s)\<rparr>)))
      | v \<Rightarrow> Inl (AttributeError ''object has no attribute lower''))"

text \<open>The gates on either side of the batch-size block, in the source's order.\<close>

definition gates_before_batch_size :: "fate_consts \<Rightarrow> (lr_param \<Rightarrow> error + lr_param) list" where
  "gates_before_batch_size c = [check_penalty c, check_tol, check_alpha, check_optimizer]"

definition gates_after_batch_size :: "fate_consts \<Rightarrow> (lr_param \<Rightarrow> error + lr_param) list" where
  "gates_after_batch_size c =
     [check_learning_rate, check_init_param, check_max_iter, check_early_stop,
      check_encrypt_param c, check_decay, check_decay_sqrt, check_stepwise_param,
      check_validation_freqs, check_early_stopping_rounds, check_metrics,
      check_use_first_metric_only, check_floating_point_precision]"

text \<open>
  \<open>LogisticRegressionParam.check\<close>.  \<open>Inr p'\<close> is the \<open>return True\<close> of the source, with
  \<open>p'\<close> the object as the check leaves it.
\<close>

definition check :: "fate_consts \<Rightarrow> lr_param \<Rightarrow> error + lr_param" where
  "check c p =
     seq_checks (gates_before_batch_size c @ [check_batch_size c]
                 @ gates_after_batch_size c @ [check_review_strategy c]) p"

text \<open>
  The acceptance condition of the batch size in the words of the configuration surface:
  the value equals \<open>-1\<close>, or it is an \<open>int\<close> not below \<open>MIN_BATCH_SIZE\<close>.
\<close>

fun batch_size_accepted :: "fate_consts \<Rightarrow> pyval \<Rightarrow> bool" where
  "batch_size_accepted c (PyInt i) = (i = - 1 \<or> MIN_BATCH_SIZE c \<le> i)"
| "batch_size_accepted c v = py_eq_int v (- 1)"

text \<open>Everything that runs before the final review-strategy block.\<close>

definition gates_before_review_strategy :: "fate_consts \<Rightarrow> (lr_param \<Rightarrow> error + lr_param) list" where
  "gates_before_review_strategy c =
     gates_before_batch_size c @ [check_batch_size c] @ gates_after_batch_size c"

text \<open>
  A concrete configuration to run \<open>check()\<close> on: the defaults of the constructor, with
  sub-objects whose own checks pass, and a constants module with the authorisation flag
  off and a minimal batch size of 10.
\<close>

definition sample_consts :: fate_consts where
  "sample_consts =
     \<lparr> MIN_BATCH_SIZE = 10, ALLOW_REVIEW_GUEST_ONLY = False,
       L1_PENALTY = ''L1'', L2_PENALTY = ''L2'', PAILLIER = ''Paillier'' \<rparr>"

definition sample_param :: lr_param where
  "sample_param =
     default_param \<lparr>fit_intercept = True, init_param_check = None\<rparr>
       \<lparr>encrypt_method = PyStr ''Paillier'', key_length = 1024, encrypt_param_check = None\<rparr>
       \<lparr>predict_param_check = None\<rparr> \<lparr>stepwise_param_check = None\<rparr>"


section \<open>\<open>hetero_lr_base.py\<close>: the state of \<open>HeteroLRBase\<close> and its collaborators\<close>

text \<open>
  The two roles of a training session (\<open>consts.GUEST\<close>, \<open>consts.HOST\<close>) and a party.
\<close>

datatype role = GUEST | HOST

record party =
  party_role :: role
  party_id :: string

text \<open>
  The secret-sharing engine, the Paillier cipher, the transfer variables, the convergence
  check and the validation strategy are other modules.  What this code reads of their
  objects is kept: of a share tensor its name and the vector of field elements this party
  holds (\<open>shape[0]\<close> is its length); of a public key and of the fixed-point encoder the
  modulus \<open>n\<close>; of a table tensor its \<open>value\<close>.
\<close>

record tensor =
  tensor_name :: string
  share_value :: "int list"

record pubkey =
  pubkey_n :: int

record fixpoint_encoder =
  encoder_n :: int

record table_tensor =
  table_value :: "int list"

record paillier_tensor =
  paillier_value :: "int list"
  paillier_q_field :: int
  paillier_endec :: fixpoint_encoder

record spdz =
  spdz_name :: string
  spdz_local_party :: party
  spdz_use_mix_rand :: pyval

datatype tensor_source = From_array "float64 list" | From_party party

text \<open>
  Modelled from the spec: \<open>LinearModelWeights\<close>, a class of another module.  The spec's
  \<open>ModelWeights\<close> is a coefficient vector with an optional intercept; the object keeps the
  list it was built from and the flag, and the intercept, when there is one, is the last
  entry of the list.
\<close>

record linear_model_weights =
  unboxed :: "float64 list"
  weights_fit_intercept :: bool

definition LinearModelWeights :: "float64 list \<Rightarrow> bool \<Rightarrow> linear_model_weights" where
  "LinearModelWeights l fi = \<lparr> unboxed = l, weights_fit_intercept = fi \<rparr>"

definition coef :: "linear_model_weights \<Rightarrow> float64 list" where
  "coef mw = (if weights_fit_intercept mw then butlast (unboxed mw) else unboxed mw)"

definition intercept :: "linear_model_weights \<Rightarrow> error + float64" where
  "intercept mw =
     (if weights_fit_intercept mw
      then (if unboxed mw = [] then Inl (IndexError ''list index out of range'')
            else Inr (last (unboxed mw)))
      else Inr 0)"

text \<open>
  The validation strategy, when there is one: its best iteration and, for each epoch,
  whether \<open>need_stop()\<close> holds after \<open>validate\<close> has run for it.
\<close>

record validation_strategy =
  best_iteration :: int
  need_stop :: "int \<Rightarrow> bool"

text \<open>
  Every call that leaves this class for the channel or for an overridable operation is
  recorded, with its arguments, in the order the calls are made.
\<close>

datatype event =
    Transfer_pubkey
  | Cal_prediction tensor tensor "pyval list"
  | Compute_gradient tensor tensor "pyval list"
  | Review_models int
  | Reconstruct_unilateral tensor string
  | Broadcast_reconstruct_share tensor string
  | Check_converge "pyval list"
  | Validate int
  | Remote_encrypted_share_matrix "int list" role "pyval list"
  | Get_encrypted_share_matrix role nat "pyval list"

text \<open>
  The attributes of \<open>self\<close>.  \<open>n_iter\<close> is \<open>n_iter_\<close>; \<open>self_max_iter\<close>,
  \<open>self_fit_intercept\<close> and \<open>self_random_field\<close> are \<open>self.max_iter\<close>,
  \<open>self.fit_intercept\<close> and \<open>self.random_field\<close>, whose names the parameter object
  already uses.  \<open>trace\<close> is the record of calls.
\<close>

record hetero_lr =
  role :: role
  local_party :: party
  other_party :: party
  model_param :: lr_param
  self_random_field :: int
  self_max_iter :: int
  self_fit_intercept :: bool
  header :: "string list"
  n_iter :: int
  is_converged :: bool
  loss_history :: "float64 list"
  model_weights :: "linear_model_weights option"
  hosted_model_weights :: "linear_model_weights list"
  fixpoint_encoder :: "fixpoint_encoder option"
  validation_strategy :: "validation_strategy option"
  trace :: "event list"

definition record_call :: "event \<Rightarrow> hetero_lr \<Rightarrow> hetero_lr" where
  "record_call ev s = s\<lparr>trace := trace s @ [ev]\<rparr>"

text \<open>
  A method either raises, and the exception leaves with the object as it is then, or
  returns a value and the object.
\<close>

type_synonym 'a outcome = "(error \<times> hetero_lr) + ('a \<times> hetero_lr)"

definition final_state :: "'a outcome \<Rightarrow> hetero_lr" where
  "final_state r = (case r of Inl (e, s) \<Rightarrow> s | Inr (v, s) \<Rightarrow> s)"

text \<open>
  The operations a secure-arithmetic variant overrides, as the object dispatches them,
  and the collaborators from other modules: the tensor constructor, the plaintext a
  unilateral reconstruction yields, the error table GUEST builds from a prediction and
  its labels (\<open>y.value.join(self.labels, operator.sub)\<close>, wrapped by \<open>from_value\<close>), the
  encoder built from a modulus, the verdict of \<open>check_converge\<close>, the Paillier
  encryption of a table and the table a \<open>get\<close> on the transfer variable delivers.
\<close>

record ('b, 'y) variant =
  variant_transfer_pubkey :: "error + pubkey"
  variant_cal_prediction :: "tensor \<Rightarrow> tensor \<Rightarrow> 'b \<Rightarrow> spdz \<Rightarrow> pyval list \<Rightarrow> error + 'y"
  variant_compute_gradient :: "tensor \<Rightarrow> tensor \<Rightarrow> 'y \<Rightarrow> 'b \<Rightarrow> pyval list \<Rightarrow> error + tensor \<times> tensor"

record 'y collaborators =
  from_source :: "string \<Rightarrow> tensor_source \<Rightarrow> fixpoint_encoder \<Rightarrow> int \<Rightarrow> tensor"
  reconstructed :: "tensor \<Rightarrow> string \<Rightarrow> float64 list"
  label_error :: "'y \<Rightarrow> 'y"
  create_fixpoint_encoder :: "int \<Rightarrow> fixpoint_encoder"
  check_converge :: "float64 list \<times> linear_model_weights list \<Rightarrow> float64 list \<Rightarrow> pyval list \<Rightarrow> bool"
  distribute_encrypt :: "int list \<Rightarrow> int list"
  encrypted_share_matrix_get :: "role \<Rightarrow> nat \<Rightarrow> pyval list \<Rightarrow> int list"


section \<open>\<open>hetero_lr_base.py\<close>: the operations\<close>

text \<open>
  \<open>share_init_model\<close>.  The tensor constructor \<open>FixedPointTensor.from_source\<close> is a
  parameter; \<open>source = [w, self.other_party]\<close>.
\<close>

definition share_init_model ::
  "(string \<Rightarrow> tensor_source \<Rightarrow> fixpoint_encoder \<Rightarrow> int \<Rightarrow> 't) \<Rightarrow> hetero_lr \<Rightarrow> float64 list
     \<Rightarrow> fixpoint_encoder \<Rightarrow> int \<Rightarrow> 't \<times> 't" where
  "share_init_model mk s w fix_point_encoder k =
     (let source = [From_array w, From_party (other_party s)] in
      if party_role (local_party s) = GUEST
      then (let wb = mk (''wb_'' @ str_int k) (source ! 0) fix_point_encoder (self_random_field s);
                wa = mk (''wa_'' @ str_int k) (source ! 1) fix_point_encoder (self_random_field s)
            in (wb, wa))
      else (let wa = mk (''wa_'' @ str_int k) (source ! 0) fix_point_encoder (self_random_field s);
                wb = mk (''wb_'' @ str_int k) (source ! 1) fix_point_encoder (self_random_field s)
            in (wa, wb)))"

text \<open>
  The three operations of the base class that a variant has to override.  They ignore
  their arguments, whatever these are.
\<close>

definition cal_prediction :: "'s \<Rightarrow> 'a \<Rightarrow> 'b \<Rightarrow> 'c \<Rightarrow> 'd \<Rightarrow> 'e \<Rightarrow> error + 'r" where
  "cal_prediction self w_self w_remote features sp suffix =
     Inl (NotImplementedError ''Should not call here'')"

definition compute_gradient :: "'s \<Rightarrow> 'a \<Rightarrow> 'b \<Rightarrow> 'c \<Rightarrow> 'd \<Rightarrow> 'e \<Rightarrow> error + 'r" where
  "compute_gradient self wa wb err features suffix =
     Inl (NotImplementedError ''Should not call here'')"

definition transfer_pubkey :: "'s \<Rightarrow> error + 'r" where
  "transfer_pubkey self = Inl (NotImplementedError ''Should not call here'')"

text \<open>The dispatch table of an object of the base class itself.\<close>

definition base_variant :: "hetero_lr \<Rightarrow> ('b, 'y) variant" where
  "base_variant self =
     \<lparr> variant_transfer_pubkey = transfer_pubkey self,
       variant_cal_prediction = cal_prediction self,
       variant_compute_gradient = compute_gradient self \<rparr>"

text \<open>
  The two reconstruction primitives of a share tensor: a unilateral reconstruction
  returns the plaintext, a broadcast hands this party's share to the peer and returns
  nothing.
\<close>

definition reconstruct_unilateral ::
  "'y collaborators \<Rightarrow> tensor \<Rightarrow> string \<Rightarrow> hetero_lr \<Rightarrow> float64 list \<times> hetero_lr" where
  "reconstruct_unilateral x t nm s =
     (reconstructed x t nm, record_call (Reconstruct_unilateral t nm) s)"

definition broadcast_reconstruct_share :: "tensor \<Rightarrow> string \<Rightarrow> hetero_lr \<Rightarrow> hetero_lr" where
  "broadcast_reconstruct_share t nm s = record_call (Broadcast_reconstruct_share t nm) s"

text \<open>\<open>review_models\<close>; the common tail of its branches is \<open>set_model_weights\<close>.\<close>

definition set_model_weights :: "float64 list \<Rightarrow> hetero_lr \<Rightarrow> (float64 list) outcome" where
  "set_model_weights new_w s =
     Inr (new_w,
          s\<lparr>model_weights :=
               Some (LinearModelWeights new_w (fit_intercept (init_param (model_param s))))\<rparr>)"

definition review_models ::
  "'y collaborators \<Rightarrow> hetero_lr \<Rightarrow> tensor \<Rightarrow> tensor \<Rightarrow> (float64 list) outcome" where
  "review_models x s0 w_self w_remote =
     (let s = record_call (Review_models (n_iter s0)) s0 in
      if review_strategy (model_param s) = PyStr ''respectively''
      then (if role s = GUEST
            then (let (new_w, s1) = reconstruct_unilateral x w_self (''wb_'' @ str_int (n_iter s)) s;
                      s2 = broadcast_reconstruct_share w_remote (''wa_'' @ str_int (n_iter s1)) s1
                  in set_model_weights new_w s2)
            else (let s1 = broadcast_reconstruct_share w_remote (''wb_'' @ str_int (n_iter s)) s;
                      (new_w, s2) = reconstruct_unilateral x w_self (''wa_'' @ str_int (n_iter s1)) s1
                  in set_model_weights new_w s2))
      else if review_strategy (model_param s) = PyStr ''all_review_in_guest''
      then (if role s = GUEST
            then (let (new_w, s1) = reconstruct_unilateral x w_self (''wb_'' @ str_int (n_iter s)) s;
                      (hosted_weights, s2) =
                         reconstruct_unilateral x w_remote (''wa_'' @ str_int (n_iter s1)) s1;
                      s3 = s2\<lparr>hosted_model_weights := [LinearModelWeights hosted_weights False]\<rparr>
                  in set_model_weights new_w s3)
            else (if length (share_value w_remote) > 2
                  then Inl (ValueError ''Too many features in Guest. Review strategy: all_review_in_guest should not be used.'', s)
                  else (let s1 = broadcast_reconstruct_share w_remote (''wb_'' @ str_int (n_iter s)) s;
                            s2 = broadcast_reconstruct_share w_self (''wa_'' @ str_int (n_iter s1)) s1;
                            new_w = replicate (length (share_value w_self)) 0
                        in set_model_weights new_w s2)))
      else Inl (NotImplementedError ''review strategy has not been implemented.'', s))"


text \<open>
  The training loop of \<open>fit_binary\<close>, from the inside out.  \<open>after_gradient\<close> is the end
  of the body of the batch loop: \<open>review_models\<close> on the shares the gradient step
  returned, then the assignment to \<open>self.model_weights\<close>.
\<close>

definition after_gradient ::
  "'y collaborators \<Rightarrow> hetero_lr \<Rightarrow> tensor \<Rightarrow> tensor \<Rightarrow> (tensor \<times> tensor \<times> float64 list) outcome" where
  "after_gradient x s w_self w_remote =
     (case review_models x s w_self w_remote of
        Inl err \<Rightarrow> Inl err
      | Inr (new_w, s') \<Rightarrow>
          Inr ((w_self, w_remote, new_w),
               s'\<lparr>model_weights :=
                     Some (LinearModelWeights new_w (fit_intercept (init_param (model_param s'))))\<rparr>))"

text \<open>
  The body of \<open>for batch_idx, batch_data in enumerate(encoded_batch_data)\<close>.  The result
  carries the local variables \<open>w_self\<close>, \<open>w_remote\<close> and \<open>new_w\<close> as the body leaves them.
\<close>

definition batch_step ::
  "('b, 'y) variant \<Rightarrow> 'y collaborators \<Rightarrow> spdz \<Rightarrow> hetero_lr \<Rightarrow> tensor \<Rightarrow> tensor \<Rightarrow> nat \<Rightarrow> 'b
     \<Rightarrow> (tensor \<times> tensor \<times> float64 list) outcome" where
  "batch_step m x sp s0 w_self w_remote batch_idx batch_data =
     (let current_suffix = [PyInt (n_iter s0), PyInt (int batch_idx)];
          s = record_call (Cal_prediction w_self w_remote current_suffix) s0
      in case variant_cal_prediction m w_self w_remote batch_data sp current_suffix of
           Inl e \<Rightarrow> Inl (e, s)
         | Inr y \<Rightarrow>
             (if role s = GUEST
              then (let err = label_error x y;
                        s1 = record_call (Compute_gradient w_remote w_self current_suffix) s
                    in case variant_compute_gradient m w_remote w_self err batch_data current_suffix of
                         Inl e \<Rightarrow> Inl (e, s1)
                       | Inr (r1, r2) \<Rightarrow> after_gradient x s1 r2 r1)
              else (let s1 = record_call (Compute_gradient w_self w_remote current_suffix) s
                    in case variant_compute_gradient m w_self w_remote y batch_data current_suffix of
                         Inl e \<Rightarrow> Inl (e, s1)
                       | Inr (r1, r2) \<Rightarrow> after_gradient x s1 r1 r2)))"

text \<open>
  The batch loop.  \<open>new_w\<close> is a local variable that is unbound until the first batch has
  been processed.
\<close>

fun batch_loop ::
  "('b, 'y) variant \<Rightarrow> 'y collaborators \<Rightarrow> spdz \<Rightarrow> hetero_lr \<Rightarrow> tensor \<Rightarrow> tensor
     \<Rightarrow> float64 list option \<Rightarrow> nat \<Rightarrow> 'b list \<Rightarrow> (tensor \<times> tensor \<times> float64 list option) outcome" where
  "batch_loop m x sp s w_self w_remote new_w batch_idx [] = Inr ((w_self, w_remote, new_w), s)"
| "batch_loop m x sp s w_self w_remote new_w batch_idx (batch_data # rest) =
     (case batch_step m x sp s w_self w_remote batch_idx batch_data of
        Inl err \<Rightarrow> Inl err
      | Inr ((w_self', w_remote', new_w'), s') \<Rightarrow>
          batch_loop m x sp s' w_self' w_remote' (Some new_w') (Suc batch_idx) rest)"

text \<open>
  The end of an epoch: the convergence check, then, when there is a validation strategy,
  \<open>validate\<close> and \<open>need_stop\<close>.
\<close>

definition check_converge_step ::
  "'y collaborators \<Rightarrow> float64 list \<times> linear_model_weights list \<Rightarrow> float64 list \<Rightarrow> hetero_lr \<Rightarrow> hetero_lr" where
  "check_converge_step x last_models new_w s =
     (record_call (Check_converge [PyInt (n_iter s)]) s)
       \<lparr>is_converged := check_converge x last_models new_w [PyInt (n_iter s)]\<rparr>"

definition validate_step :: "hetero_lr \<Rightarrow> hetero_lr \<times> bool" where
  "validate_step s =
     (case validation_strategy s of
        None \<Rightarrow> (s, False)
      | Some v \<Rightarrow> (record_call (Validate (n_iter s)) s, need_stop v (n_iter s)))"

text \<open>
  One pass through the body of the \<open>while\<close> loop, up to the two \<open>break\<close>s: the result
  carries the local variables and whether the loop is left (early stop requested, or
  \<open>is_converged\<close>).
\<close>

definition epoch ::
  "('b, 'y) variant \<Rightarrow> 'y collaborators \<Rightarrow> spdz \<Rightarrow> 'b list \<Rightarrow> hetero_lr \<Rightarrow> tensor \<Rightarrow> tensor
     \<Rightarrow> float64 list \<times> linear_model_weights list \<Rightarrow> float64 list option
     \<Rightarrow> (tensor \<times> tensor \<times> float64 list \<times> bool) outcome" where
  "epoch m x sp encoded_batch_data s w_self w_remote last_models new_w =
     (case batch_loop m x sp s w_self w_remote new_w 0 encoded_batch_data of
        Inl err \<Rightarrow> Inl err
      | Inr ((w_self', w_remote', new_w'), s1) \<Rightarrow>
          (case new_w' of
             None \<Rightarrow> Inl (UnboundLocalError ''local variable new_w referenced before assignment'', s1)
           | Some nw \<Rightarrow>
               (let s2 = check_converge_step x last_models nw s1;
                    (s3, stop) = validate_step s2
                in Inr ((w_self', w_remote', nw, stop \<or> is_converged s3), s3))))"

text \<open>
  \<open>while self.n_iter_ < self.max_iter\<close>.  The loop is left by the loop condition, by a
  \<open>break\<close>, or by an exception of the body.
\<close>

function fit_binary_loop ::
  "('b, 'y) variant \<Rightarrow> 'y collaborators \<Rightarrow> spdz \<Rightarrow> 'b list \<Rightarrow> hetero_lr \<Rightarrow> tensor \<Rightarrow> tensor
     \<Rightarrow> float64 list \<times> linear_model_weights list \<Rightarrow> float64 list option \<Rightarrow> unit outcome" where
  "fit_binary_loop m x sp encoded_batch_data s w_self w_remote last_models new_w =
     (if n_iter s < self_max_iter s
      then (case epoch m x sp encoded_batch_data s w_self w_remote last_models new_w of
              Inl err \<Rightarrow> Inl err
            | Inr ((w_self', w_remote', nw, brk), s') \<Rightarrow>
                if brk then Inr ((), s')
                else fit_binary_loop m x sp encoded_batch_data (s'\<lparr>n_iter := n_iter s' + 1\<rparr>)
                       w_self' w_remote' (nw, hosted_model_weights s') (Some nw))
      else Inr ((), s))"
  by pat_completeness auto
termination
proof -
  have rm: "n_iter s' = n_iter s \<and> self_max_iter s' = self_max_iter s"
    if "review_models x s w_self w_remote = Inr (v, s')"
    for x :: "'b collaborators" and s w_self w_remote v s'
    using that
    by (auto simp: review_models_def Let_def record_call_def set_model_weights_def
          reconstruct_unilateral_def broadcast_reconstruct_share_def split: if_splits)
  have ag: "n_iter s' = n_iter s \<and> self_max_iter s' = self_max_iter s"
    if "after_gradient x s w_self w_remote = Inr (v, s')"
    for x :: "'b collaborators" and s w_self w_remote v s'
    using that rm [of x s w_self w_remote]
    by (auto simp: after_gradient_def split: sum.splits prod.splits)
  have bs: "n_iter s' = n_iter s \<and> self_max_iter s' = self_max_iter s"
    if "batch_step m x sp s w_self w_remote i b = Inr (v, s')"
    for m :: "('a, 'b) variant" and x sp s w_self w_remote i b v s'
    using that
    by (auto simp: batch_step_def Let_def record_call_def split: sum.splits prod.splits if_splits dest!: ag)
  have bl: "n_iter s' = n_iter s \<and> self_max_iter s' = self_max_iter s"
    if "batch_loop m x sp s w_self w_remote nw i bs = Inr (v, s')"
    for m :: "('a, 'b) variant" and x sp s w_self w_remote nw i bs v s'
    using that
  proof (induction bs arbitrary: s w_self w_remote nw i)
    case Nil
    then show ?case by simp
  next
    case (Cons b bs)
    then show ?case
      by (auto split: sum.splits prod.splits dest!: bs)
  qed
  have ep: "n_iter s' = n_iter s \<and> self_max_iter s' = self_max_iter s"
    if "epoch m x sp bs s w_self w_remote lm nw = Inr (v, s')"
    for m :: "('a, 'b) variant" and x sp s w_self w_remote nw lm bs v s'
    using that
    by (auto simp: epoch_def Let_def check_converge_step_def validate_step_def record_call_def
          split: sum.splits prod.splits option.splits dest!: bl)
  show ?thesis
    apply (relation "measure (\<lambda>(m, x, sp, bs, s, r). nat (self_max_iter s - n_iter s))")
     apply simp
    apply clarsimp
    apply (frule ep)
    apply simp
    done
qed


declare fit_binary_loop.simps [simp del]

text \<open>
  \<open>fit_binary\<close> from the public-key exchange to the end of the loop.  The initial weights
  \<open>w\<close> and the encoded batches are what the initialiser and the batch generator, which
  are other modules, have produced; the tensors are shared with the default \<open>n_iter = -1\<close>.
\<close>

definition fit_binary ::
  "('b, 'y) variant \<Rightarrow> 'y collaborators \<Rightarrow> float64 list \<Rightarrow> 'b list \<Rightarrow> hetero_lr \<Rightarrow> unit outcome" where
  "fit_binary m x w encoded_batch_data s0 =
     (let last_models = (w, hosted_model_weights s0);
          s = record_call Transfer_pubkey s0
      in case variant_transfer_pubkey m of
           Inl e \<Rightarrow> Inl (e, s)
         | Inr remote_pubkey \<Rightarrow>
             (let sp = \<lparr> spdz_name = ''sshe_lr'', spdz_local_party = local_party s,
                         spdz_use_mix_rand = use_mix_rand (model_param s) \<rparr>;
                  enc = create_fixpoint_encoder x (pubkey_n remote_pubkey);
                  s1 = s\<lparr>fixpoint_encoder := Some enc\<rparr>;
                  (w_self, w_remote) = share_init_model (from_source x) s1 w enc (- 1)
              in fit_binary_loop m x sp encoded_batch_data s1 w_self w_remote last_models None))"

text \<open>
  \<open>share_z\<close>.  Each \<open>for\<close> over \<open>["z"]\<close> has one iteration; \<open>kwargs\<close> is the dictionary
  of keyword arguments.  On HOST the function ends without a \<open>return\<close>, so its value
  is \<open>None\<close>.
\<close>

definition share_z ::
  "'y collaborators \<Rightarrow> hetero_lr \<Rightarrow> pyval list \<Rightarrow> (string \<rightharpoonup> table_tensor)
     \<Rightarrow> ((paillier_tensor \<times> paillier_tensor \<times> paillier_tensor) option) outcome" where
  "share_z x s suffix kwargs =
     (if role s = HOST
      then (case kwargs ''z'' of
              None \<Rightarrow> Inl (KeyError ''z'', s)
            | Some z \<Rightarrow>
                (let encrypt_z = distribute_encrypt x (table_value z)
                 in Inr (None,
                         record_call (Remote_encrypted_share_matrix encrypt_z GUEST (PyStr ''z'' # suffix)) s)))
      else (let dest_role = (if role s = HOST then GUEST else HOST);
                s1 = record_call (Get_encrypted_share_matrix dest_role 0 (PyStr ''z'' # suffix)) s;
                z_table = encrypted_share_matrix_get x dest_role 0 (PyStr ''z'' # suffix)
            in case fixpoint_encoder s1 of
                 None \<Rightarrow> Inl (AttributeError ''NoneType object has no attribute n'', s1)
               | Some enc \<Rightarrow>
                   (let res = [] @ [\<lparr> paillier_value = z_table, paillier_q_field = encoder_n enc,
                                       paillier_endec = enc \<rparr>]
                    in Inr (Some (res ! 0, res ! 0, res ! 0), s1))))"

text \<open>
  The dictionary \<open>get_single_model_param\<close> returns (its local variable \<open>result\<close>), one
  field for each key.
\<close>

record param_dict =
  result_iters :: int
  result_loss_history :: "float64 list"
  result_is_converged :: bool
  result_weight :: "string \<rightharpoonup> float64"
  result_intercept :: float64
  result_header :: "string list"
  result_best_iteration :: int

text \<open>
  The loop of \<open>get_single_model_param\<close> that fills \<open>weight_dict\<close>: a later entry
  overwrites an earlier one of the same name.
\<close>

fun fill_weight_dict ::
  "linear_model_weights option \<Rightarrow> (string \<rightharpoonup> float64) \<Rightarrow> nat \<Rightarrow> string list
     \<Rightarrow> error + (string \<rightharpoonup> float64)" where
  "fill_weight_dict mw weight_dict idx [] = Inr weight_dict"
| "fill_weight_dict mw weight_dict idx (header_name # rest) =
     (case mw of
        None \<Rightarrow> Inl (AttributeError ''NoneType object has no attribute coef_'')
      | Some w \<Rightarrow>
          (if idx < length (coef w)
           then fill_weight_dict mw (weight_dict(header_name \<mapsto> coef w ! idx)) (Suc idx) rest
           else Inl (IndexError ''index is out of bounds'')))"

text \<open>
  \<open>get_single_model_param\<close>.  An argument that is \<open>None\<close> (or, for the header, empty) is
  replaced by the attribute of \<open>self\<close>; the intercept is read from \<open>self.model_weights\<close>
  whatever the argument is.
\<close>

definition get_single_model_param ::
  "hetero_lr \<Rightarrow> linear_model_weights option \<Rightarrow> string list option \<Rightarrow> error + param_dict" where
  "get_single_model_param s model_weights_arg header_arg =
     (let mw = (case model_weights_arg of Some w \<Rightarrow> Some w | None \<Rightarrow> model_weights s);
          hdr = (case header_arg of
                  None \<Rightarrow> header s
                | Some h \<Rightarrow> (if h \<noteq> [] then h else header s))
      in case fill_weight_dict mw Map.empty 0 hdr of
           Inl e \<Rightarrow> Inl e
         | Inr weight_dict \<Rightarrow>
             (case model_weights s of
                None \<Rightarrow> Inl (AttributeError ''NoneType object has no attribute intercept_'')
              | Some w \<Rightarrow>
                  (case intercept w of
                     Inl e \<Rightarrow> Inl e
                   | Inr b \<Rightarrow>
                       Inr \<lparr> result_iters = n_iter s,
                             result_loss_history = loss_history s,
                             result_is_converged = is_converged s,
                             result_weight = weight_dict,
                             result_intercept = b,
                             result_header = hdr,
                             result_best_iteration =
                               (case validation_strategy s of
                                  None \<Rightarrow> - 1
                                | Some v \<Rightarrow> best_iteration v) \<rparr>)))"

text \<open>
  The object \<open>load_single_model\<close> reads: a parameter record with attributes, of which
  the function reads \<open>weight\<close>, \<open>intercept\<close> and \<open>iters\<close>.  The attributes carry the
  prefix \<open>obj_\<close> here.
\<close>

record single_model_obj =
  obj_iters :: int
  obj_loss_history :: "float64 list"
  obj_is_converged :: bool
  obj_weight :: "string \<rightharpoonup> float64"
  obj_intercept :: float64
  obj_header :: "string list"
  obj_best_iteration :: int

text \<open>
  Modelled from the spec: the step from the dictionary to the parameter record.  The
  dictionary has no attributes, so \<open>load_single_model\<close> cannot read it as it is; the
  code that builds the record from it belongs to the concrete model classes and the
  generated message classes, which are not part of the sources at hand.  The spec gives
  the persisted parameter record the fields \<open>iters\<close>, \<open>loss_history\<close>, \<open>is_converged\<close>,
  \<open>weight\<close> (a map from feature name to coefficient), \<open>intercept\<close>, \<open>header\<close> and
  \<open>best_iteration\<close>, which are the keys of the dictionary: each attribute of the record
  is the value of the key of that name.
\<close>

definition parameter_record :: "param_dict \<Rightarrow> single_model_obj" where
  "parameter_record result =
     \<lparr> obj_iters = result_iters result,
       obj_loss_history = result_loss_history result,
       obj_is_converged = result_is_converged result,
       obj_weight = result_weight result,
       obj_intercept = result_intercept result,
       obj_header = result_header result,
       obj_best_iteration = result_best_iteration result \<rparr>"

text \<open>
  The loop of \<open>load_single_model\<close>.  \<open>weight_dict.get\<close> returns \<open>None\<close> for a missing
  name, and numpy stores \<open>None\<close> in a float array as NaN.
\<close>

fun load_vars ::
  "(string \<rightharpoonup> float64) \<Rightarrow> float64 list \<Rightarrow> nat \<Rightarrow> string list \<Rightarrow> float64 list" where
  "load_vars weight_dict tmp_vars idx [] = tmp_vars"
| "load_vars weight_dict tmp_vars idx (header_name # rest) =
     load_vars weight_dict
       (tmp_vars[idx := (case weight_dict header_name of None \<Rightarrow> NaN | Some v \<Rightarrow> v)])
       (Suc idx) rest"

text \<open>\<open>load_single_model\<close>; it returns \<open>self\<close>.\<close>

definition load_single_model :: "hetero_lr \<Rightarrow> single_model_obj \<Rightarrow> hetero_lr" where
  "load_single_model s single_model_obj =
     (let feature_shape = length (header s);
          tmp_vars = replicate feature_shape 0;
          weight_dict = obj_weight single_model_obj;
          tmp_vars1 = load_vars weight_dict tmp_vars 0 (header s);
          tmp_vars2 = (if self_fit_intercept s
                       then tmp_vars1 @ [obj_intercept single_model_obj]
                       else tmp_vars1)
      in s\<lparr>model_weights := Some (LinearModelWeights tmp_vars2 (self_fit_intercept s)),
            n_iter := obj_iters single_model_obj\<rparr>)"

text \<open>
  A concrete object to run the operations on: a stand-in variant whose gradient step
  returns the shares unchanged, stand-in collaborators, and a freshly initialised model
  of the given role with \<open>max_iter = 1\<close>.
\<close>

definition sample_variant :: "(unit, unit) variant" where
  "sample_variant =
     \<lparr> variant_transfer_pubkey = Inr \<lparr>pubkey_n = 35\<rparr>,
       variant_cal_prediction = (\<lambda>w_self w_remote features sp suffix. Inr ()),
       variant_compute_gradient = (\<lambda>wa wb err features suffix. Inr (wa, wb)) \<rparr>"

definition sample_collaborators :: "unit collaborators" where
  "sample_collaborators =
     \<lparr> from_source = (\<lambda>nm src enc q.
          \<lparr> tensor_name = nm,
            share_value = (case src of From_array w \<Rightarrow> replicate (length w) 0 | From_party p \<Rightarrow> [0]) \<rparr>),
       reconstructed = (\<lambda>t nm. replicate (length (share_value t)) 0),
       label_error = (\<lambda>y. y),
       create_fixpoint_encoder = (\<lambda>k. \<lparr>encoder_n = k\<rparr>),
       check_converge = (\<lambda>last_models new_w suffix. False),
       distribute_encrypt = (\<lambda>tbl. tbl),
       encrypted_share_matrix_get = (\<lambda>r i suffix. [7]) \<rparr>"

definition sample_lr :: "role \<Rightarrow> hetero_lr" where
  "sample_lr r =
     \<lparr> role = r,
       local_party = \<lparr>party_role = r, party_id = ''9999''\<rparr>,
       other_party = \<lparr>party_role = (if r = GUEST then HOST else GUEST), party_id = ''10000''\<rparr>,
       model_param = sample_param,
       self_random_field = 1048576,
       self_max_iter = 1,
       self_fit_intercept = False,
       header = [],
       n_iter = 0,
       is_converged = False,
       loss_history = [],
       model_weights = None,
       hosted_model_weights = [],
       fixpoint_encoder = None,
       validation_strategy = None,
       trace = [] \<rparr>"


text \<open>
  A tensor constructor that keeps its arguments, to see which call built which component
  of a pair.
\<close>

datatype tensor_call = From_source string tensor_source fixpoint_encoder int


text \<open>
  An epoch is complete when its convergence check has been made; the number of those
  calls in the record counts the epochs run so far.
\<close>

fun is_check_converge :: "event \<Rightarrow> bool" where
  "is_check_converge (Check_converge suffix) = True"
| "is_check_converge ev = False"

definition epochs_completed :: "hetero_lr \<Rightarrow> nat" where
  "epochs_completed s = length (filter is_check_converge (trace s))"

text \<open>What the processing of a batch leaves as it is.\<close>

definition same_session :: "hetero_lr \<Rightarrow> hetero_lr \<Rightarrow> bool" where
  "same_session s s' \<longleftrightarrow>
     n_iter s' = n_iter s \<and> self_max_iter s' = self_max_iter s \<and> role s' = role s
     \<and> validation_strategy s' = validation_strategy s \<and> model_param s' = model_param s"

text \<open>
  Two shares to run the loop on, a GUEST-owned one (\<open>wb\<close>) and a HOST-owned one (\<open>wa\<close>),
  the context the loop runs in, and a model switched to the strategy
  \<open>all_review_in_guest\<close>.
\<close>

definition sample_wb :: tensor where
  "sample_wb = \<lparr>tensor_name = ''wb_-1'', share_value = [1]\<rparr>"

definition sample_wa :: tensor where
  "sample_wa = \<lparr>tensor_name = ''wa_-1'', share_value = [2, 3]\<rparr>"

definition sample_spdz :: "role \<Rightarrow> spdz" where
  "sample_spdz r =
     \<lparr>spdz_name = ''sshe_lr'', spdz_local_party = local_party (sample_lr r),
      spdz_use_mix_rand = PyBool False\<rparr>"

definition guest_only :: "hetero_lr \<Rightarrow> hetero_lr" where
  "guest_only s = s\<lparr>model_param := (model_param s)\<lparr>review_strategy := PyStr ''all_review_in_guest''\<rparr>\<rparr>"


text \<open>
  Persisting the model \<open>s\<close> with \<open>get_single_model_param()\<close>, turning the dictionary into
  a parameter record and loading the record into the model \<open>t\<close>.
\<close>

definition persist_and_load :: "hetero_lr \<Rightarrow> hetero_lr \<Rightarrow> error + hetero_lr" where
  "persist_and_load s t =
     (case get_single_model_param s None None of
        Inl e \<Rightarrow> Inl e
      | Inr result \<Rightarrow> Inr (load_single_model t (parameter_record result)))"


text \<open>
  A validation strategy that asks to stop after the first epoch, collaborators whose
  convergence check succeeds, and an object of another class that compares equal to
  \<open>-1\<close>, as \<open>Fraction(-1)\<close> does.
\<close>

definition sample_validation :: validation_strategy where
  "sample_validation = \<lparr>best_iteration = 0, need_stop = (\<lambda>k. k = 0)\<rparr>"

definition converging_collaborators :: "unit collaborators" where
  "converging_collaborators =
     sample_collaborators\<lparr>check_converge := (\<lambda>last_models new_w suffix. True)\<rparr>"

definition fraction_minus_one :: other_object where
  "fraction_minus_one =
     \<lparr> instance_of_int = False, instance_of_float = False, instance_of_list = False,
       equals_int = (\<lambda>i. i = - 1), equals_str = (\<lambda>s. False), equals_none = False,
       less_int = (\<lambda>i. - 1 < i), greater_int = (\<lambda>i. - 1 > i) \<rparr>"


section \<open>Properties of \<open>check()\<close>\<close>


lemma seq_checks_append:
  "seq_checks (xs @ ys) p = (case seq_checks xs p of Inl e \<Rightarrow> Inl e | Inr p' \<Rightarrow> seq_checks ys p')"
  by (induction xs arbitrary: p) (auto split: sum.splits)

lemma seq_checks_commute:
  "(\<And>g q. g \<in> set gs \<Longrightarrow> g (f q) = map_sum (\<lambda>e. e) f (g q)) \<Longrightarrow>
   seq_checks gs (f p) = map_sum (\<lambda>e. e) f (seq_checks gs p)"
proof (induction gs arbitrary: p)
  case Nil
  show ?case by simp
next
  case (Cons g gs)
  have hd: "g (f p) = map_sum (\<lambda>e. e) f (g p)"
    by (rule Cons.prems) simp
  have tl: "seq_checks gs (f q) = map_sum (\<lambda>e. e) f (seq_checks gs q)" for q
    by (rule Cons.IH) (rule Cons.prems, simp)
  show ?case
  proof (cases "g p")
    case (Inl e)
    with hd show ?thesis by simp
  next
    case (Inr p')
    with hd tl [of p'] show ?thesis by simp
  qed
qed

lemma check_penalty_bs: "check_penalty c (batch_size_update h p) = map_sum (\<lambda>e. e) (batch_size_update h) (check_penalty c p)"
  by (simp add: check_penalty_def split: pyval.split)
lemma check_tol_bs: "check_tol (batch_size_update h p) = map_sum (\<lambda>e. e) (batch_size_update h) (check_tol p)"
  by (simp add: check_tol_def)
lemma check_alpha_bs: "check_alpha (batch_size_update h p) = map_sum (\<lambda>e. e) (batch_size_update h) (check_alpha p)"
  by (simp add: check_alpha_def)
lemma check_optimizer_bs: "check_optimizer (batch_size_update h p) = map_sum (\<lambda>e. e) (batch_size_update h) (check_optimizer p)"
  by (simp add: check_optimizer_def split: pyval.split)
lemma check_learning_rate_bs: "check_learning_rate (batch_size_update h p) = map_sum (\<lambda>e. e) (batch_size_update h) (check_learning_rate p)"
  by (simp add: check_learning_rate_def)
lemma check_init_param_bs: "check_init_param (batch_size_update h p) = map_sum (\<lambda>e. e) (batch_size_update h) (check_init_param p)"
  by (simp add: check_init_param_def split: option.split)
lemma check_max_iter_bs: "check_max_iter (batch_size_update h p) = map_sum (\<lambda>e. e) (batch_size_update h) (check_max_iter p)"
  by (simp add: check_max_iter_def)
lemma check_early_stop_bs: "check_early_stop (batch_size_update h p) = map_sum (\<lambda>e. e) (batch_size_update h) (check_early_stop p)"
  by (simp add: check_early_stop_def split: pyval.split)
lemma check_encrypt_param_bs: "check_encrypt_param c (batch_size_update h p) = map_sum (\<lambda>e. e) (batch_size_update h) (check_encrypt_param c p)"
  by (simp add: check_encrypt_param_def split: option.split)
lemma check_decay_bs: "check_decay (batch_size_update h p) = map_sum (\<lambda>e. e) (batch_size_update h) (check_decay p)"
  by (simp add: check_decay_def)
lemma check_decay_sqrt_bs: "check_decay_sqrt (batch_size_update h p) = map_sum (\<lambda>e. e) (batch_size_update h) (check_decay_sqrt p)"
  by (simp add: check_decay_sqrt_def)
lemma check_stepwise_param_bs: "check_stepwise_param (batch_size_update h p) = map_sum (\<lambda>e. e) (batch_size_update h) (check_stepwise_param p)"
  by (simp add: check_stepwise_param_def split: option.split)
lemma check_validation_freqs_bs: "check_validation_freqs (batch_size_update h p) = map_sum (\<lambda>e. e) (batch_size_update h) (check_validation_freqs p)"
  by (simp add: check_validation_freqs_def)
lemma check_early_stopping_rounds_bs: "check_early_stopping_rounds (batch_size_update h p) = map_sum (\<lambda>e. e) (batch_size_update h) (check_early_stopping_rounds p)"
  by (simp add: check_early_stopping_rounds_def)
lemma check_metrics_bs: "check_metrics (batch_size_update h p) = map_sum (\<lambda>e. e) (batch_size_update h) (check_metrics p)"
  by (simp add: check_metrics_def)
lemma check_use_first_metric_only_bs: "check_use_first_metric_only (batch_size_update h p) = map_sum (\<lambda>e. e) (batch_size_update h) (check_use_first_metric_only p)"
  by (simp add: check_use_first_metric_only_def)
lemma check_floating_point_precision_bs: "check_floating_point_precision (batch_size_update h p) = map_sum (\<lambda>e. e) (batch_size_update h) (check_floating_point_precision p)"
  by (simp add: check_floating_point_precision_def)
lemma check_review_strategy_bs: "check_review_strategy c (batch_size_update h p) = map_sum (\<lambda>e. e) (batch_size_update h) (check_review_strategy c p)"
  by (simp add: check_review_strategy_def split: pyval.split sum.split)

lemmas gate_bs = check_penalty_bs check_tol_bs check_alpha_bs check_optimizer_bs
  check_learning_rate_bs check_init_param_bs check_max_iter_bs check_early_stop_bs
  check_encrypt_param_bs check_decay_bs check_decay_sqrt_bs check_stepwise_param_bs
  check_validation_freqs_bs check_early_stopping_rounds_bs check_metrics_bs
  check_use_first_metric_only_bs check_floating_point_precision_bs check_review_strategy_bs

lemma before_bs: "seq_checks (gates_before_batch_size c) (batch_size_update h p)
   = map_sum (\<lambda>e. e) (batch_size_update h) (seq_checks (gates_before_batch_size c) p)"
  by (rule seq_checks_commute) (auto simp: gates_before_batch_size_def gate_bs)

lemma after_bs: "seq_checks (gates_after_batch_size c @ [check_review_strategy c]) (batch_size_update h p)
   = map_sum (\<lambda>e. e) (batch_size_update h) (seq_checks (gates_after_batch_size c @ [check_review_strategy c]) p)"
  by (rule seq_checks_commute) (auto simp: gates_after_batch_size_def gate_bs)

lemma before_keeps_batch_size:
  assumes "seq_checks (gates_before_batch_size c) p = Inr p'"
  shows "batch_size p' = batch_size p"
proof -
  have "seq_checks (gates_before_batch_size c) (batch_size_update (\<lambda>_. batch_size p) p)
        = map_sum (\<lambda>e. e) (batch_size_update (\<lambda>_. batch_size p)) (seq_checks (gates_before_batch_size c) p)"
    by (rule before_bs)
  then have "p' = batch_size_update (\<lambda>_. batch_size p) p'" using assms by simp
  then have "batch_size p' = batch_size (batch_size_update (\<lambda>_. batch_size p) p')" by simp
  then show ?thesis by simp
qed

lemma check_batch_size_iff:
  "check_batch_size c p = Inr p \<longleftrightarrow> batch_size_accepted c (batch_size p)"
  by (cases "batch_size p") (auto simp: check_batch_size_def)

lemma check_batch_size_cases:
  "check_batch_size c p = (if batch_size_accepted c (batch_size p) then Inr p
     else Inl (ValueError ''logistic_param's batch_size not supported, should be larger than MIN_BATCH_SIZE or -1 represent for all data''))"
  by (cases "batch_size p") (auto simp: check_batch_size_def)


lemma check_unfold:
  "check c p =
     (case seq_checks (gates_before_batch_size c) p of
        Inl e \<Rightarrow> Inl e
      | Inr p1 \<Rightarrow>
          (case check_batch_size c p1 of
             Inl e \<Rightarrow> Inl e
           | Inr p2 \<Rightarrow> seq_checks (gates_after_batch_size c @ [check_review_strategy c]) p2))"
  by (simp add: check_def seq_checks_append split: sum.splits)

lemma before_raises_ValueError:
  "seq_checks (gates_before_batch_size c) p = Inl e \<Longrightarrow> \<exists>m. e = ValueError m"
  by (auto simp: gates_before_batch_size_def check_penalty_def check_tol_def check_alpha_def
        check_optimizer_def split: sum.splits pyval.splits if_splits)

lemma check_rejects_batch_size:
  assumes "\<not> batch_size_accepted c (batch_size p)"
  shows "\<exists>m. check c p = Inl (ValueError m)"
proof (cases "seq_checks (gates_before_batch_size c) p")
  case (Inl e)
  then show ?thesis using before_raises_ValueError [OF Inl] by (simp add: check_unfold)
next
  case (Inr p1)
  have "batch_size p1 = batch_size p" by (rule before_keeps_batch_size [OF Inr])
  with assms have "\<not> batch_size_accepted c (batch_size p1)" by simp
  then show ?thesis using Inr by (simp add: check_unfold check_batch_size_cases)
qed

lemma check_batch_size_update:
  assumes "batch_size_accepted c (batch_size p)" and "batch_size_accepted c v"
  shows "check c (p\<lparr>batch_size := v\<rparr>) = map_sum (\<lambda>e. e) (batch_size_update (\<lambda>_. v)) (check c p)"
proof (cases "seq_checks (gates_before_batch_size c) p")
  case (Inl e)
  then show ?thesis using before_bs [of c "\<lambda>_. v" p] by (simp add: check_unfold)
next
  case (Inr p1)
  have keep: "batch_size p1 = batch_size p" by (rule before_keeps_batch_size [OF Inr])
  have pre: "seq_checks (gates_before_batch_size c) (p\<lparr>batch_size := v\<rparr>) = Inr (p1\<lparr>batch_size := v\<rparr>)"
    using before_bs [of c "\<lambda>_. v" p] Inr by simp
  have g1: "check_batch_size c p1 = Inr p1"
    using assms(1) keep by (simp add: check_batch_size_cases)
  have g2: "check_batch_size c (p1\<lparr>batch_size := v\<rparr>) = Inr (p1\<lparr>batch_size := v\<rparr>)"
    using assms(2) by (simp add: check_batch_size_cases)
  show ?thesis
    using Inr pre g1 g2 after_bs [of c "\<lambda>_. v" p1] by (simp add: check_unfold)
qed

text \<open>
  Claim C7.  The batch-size block of \<open>check()\<close> lets the object through exactly when
  \<open>batch_size\<close> equals \<open>-1\<close> or is an \<open>int\<close> not below \<open>MIN_BATCH_SIZE\<close>.  Equal is
  what \<open>!=\<close> decides: the float \<open>-1.0\<close> and an object of another class that compares
  equal to \<open>-1\<close> pass as \<open>-1\<close> does.  For any other value the whole \<open>check()\<close> raises a \<open>ValueError\<close>; for an accepted value
  \<open>check()\<close> raises exactly what it raises with the full-batch default \<open>-1\<close>, so the
  batch size is never the reason for a refusal.  With a positive \<open>MIN_BATCH_SIZE\<close>, a
  batch size of \<open>0\<close> is refused.  \<open>check()\<close> is a function of the parameter object and
  the constants alone: it has no channel to a peer.
\<close>

theorem check_accepts_batch_size_exactly:
  "(check_batch_size c p = Inr p \<longleftrightarrow> batch_size_accepted c (batch_size p))
   \<and> (\<not> batch_size_accepted c (batch_size p) \<longrightarrow> (\<exists>m. check c p = Inl (ValueError m)))
   \<and> (batch_size_accepted c (batch_size p) \<longrightarrow>
        (\<forall>e. check c p = Inl e \<longleftrightarrow> check c (p\<lparr>batch_size := PyInt (- 1)\<rparr>) = Inl e))
   \<and> (0 < MIN_BATCH_SIZE c \<and> batch_size p = PyInt 0 \<longrightarrow> (\<exists>m. check c p = Inl (ValueError m)))"
proof (intro conjI impI allI)
  show "check_batch_size c p = Inr p \<longleftrightarrow> batch_size_accepted c (batch_size p)"
    by (rule check_batch_size_iff)
next
  assume "\<not> batch_size_accepted c (batch_size p)"
  then show "\<exists>m. check c p = Inl (ValueError m)" by (rule check_rejects_batch_size)
next
  fix e
  assume acc: "batch_size_accepted c (batch_size p)"
  have "check c (p\<lparr>batch_size := PyInt (- 1)\<rparr>)
        = map_sum (\<lambda>e. e) (batch_size_update (\<lambda>_. PyInt (- 1))) (check c p)"
    by (rule check_batch_size_update [OF acc]) simp
  then show "check c p = Inl e \<longleftrightarrow> check c (p\<lparr>batch_size := PyInt (- 1)\<rparr>) = Inl e"
    by (cases "check c p") auto
next
  assume "0 < MIN_BATCH_SIZE c \<and> batch_size p = PyInt 0"
  then have "\<not> batch_size_accepted c (batch_size p)" by simp
  then show "\<exists>m. check c p = Inl (ValueError m)" by (rule check_rejects_batch_size)
qed


lemmas gate_defs = check_def gates_before_batch_size_def gates_after_batch_size_def
  check_penalty_def check_tol_def check_alpha_def check_optimizer_def check_batch_size_def
  check_learning_rate_def check_init_param_def check_max_iter_def check_early_stop_def
  check_encrypt_param_def check_decay_def check_decay_sqrt_def check_stepwise_param_def
  check_validation_freqs_def check_early_stopping_rounds_def check_metrics_def
  check_use_first_metric_only_def check_floating_point_precision_def
  check_review_strategy_def check_valid_value_def

lemmas string_defs = lower_def upper_def lower_char_def upper_char_def
  ascii_uppercase_def ascii_lowercase_def

lemma check_sample_param:
  "check sample_consts sample_param = Inr sample_param"
  by (simp add: sample_consts_def sample_param_def default_param_def gate_defs string_defs)

theorem check_accepts_batch_size_exactly_witness:
  "0 < MIN_BATCH_SIZE sample_consts
   \<and> (\<exists>m. check sample_consts (sample_param\<lparr>batch_size := PyInt 0\<rparr>) = Inl (ValueError m))
   \<and> batch_size_accepted sample_consts (PyInt 32)
   \<and> (\<forall>e. check sample_consts (sample_param\<lparr>batch_size := PyInt 32\<rparr>) \<noteq> Inl e)
   \<and> batch_size_accepted sample_consts (PyObject fraction_minus_one)
   \<and> (\<forall>e. check sample_consts (sample_param\<lparr>batch_size := PyObject fraction_minus_one\<rparr>) \<noteq> Inl e)
   \<and> \<not> batch_size_accepted sample_consts (PyFloat (Float 32))
   \<and> (\<exists>m. check sample_consts (sample_param\<lparr>batch_size := PyFloat (Float 32)\<rparr>) = Inl (ValueError m))"
proof -
  have a: "batch_size (sample_param\<lparr>batch_size := PyInt 32\<rparr>) = PyInt 32"
    "batch_size (sample_param\<lparr>batch_size := PyObject fraction_minus_one\<rparr>) = PyObject fraction_minus_one"
    "batch_size (sample_param\<lparr>batch_size := PyFloat (Float 32)\<rparr>) = PyFloat (Float 32)"
    by simp_all
  have b: "batch_size_accepted sample_consts (PyInt 32)"
    "batch_size_accepted sample_consts (PyObject fraction_minus_one)"
    "\<not> batch_size_accepted sample_consts (PyFloat (Float 32))"
    by (simp_all add: sample_consts_def fraction_minus_one_def)
  have c: "0 < MIN_BATCH_SIZE sample_consts" by (simp add: sample_consts_def)
  show ?thesis
    using check_accepts_batch_size_exactly [of sample_consts "sample_param\<lparr>batch_size := PyInt 0\<rparr>"]
      check_accepts_batch_size_exactly [of sample_consts "sample_param\<lparr>batch_size := PyInt 32\<rparr>"]
      check_accepts_batch_size_exactly
        [of sample_consts "sample_param\<lparr>batch_size := PyObject fraction_minus_one\<rparr>"]
      check_accepts_batch_size_exactly
        [of sample_consts "sample_param\<lparr>batch_size := PyFloat (Float 32)\<rparr>"]
      a b c check_sample_param
    by (simp add: sample_param_def default_param_def)
qed

lemma check_penalty_rs:
  "check_penalty c (review_strategy_update h p) = map_sum (\<lambda>e. e) (review_strategy_update h) (check_penalty c p)"
  by (simp add: check_penalty_def split: pyval.split)

lemma check_tol_rs:
  "check_tol (review_strategy_update h p) = map_sum (\<lambda>e. e) (review_strategy_update h) (check_tol p)"
  by (simp add: check_tol_def)

lemma check_alpha_rs:
  "check_alpha (review_strategy_update h p) = map_sum (\<lambda>e. e) (review_strategy_update h) (check_alpha p)"
  by (simp add: check_alpha_def)

lemma check_optimizer_rs:
  "check_optimizer (review_strategy_update h p) = map_sum (\<lambda>e. e) (review_strategy_update h) (check_optimizer p)"
  by (simp add: check_optimizer_def split: pyval.split)

lemma check_batch_size_rs:
  "check_batch_size c (review_strategy_update h p) = map_sum (\<lambda>e. e) (review_strategy_update h) (check_batch_size c p)"
  by (simp add: check_batch_size_def)

lemma check_learning_rate_rs:
  "check_learning_rate (review_strategy_update h p) = map_sum (\<lambda>e. e) (review_strategy_update h) (check_learning_rate p)"
  by (simp add: check_learning_rate_def)

lemma check_init_param_rs:
  "check_init_param (review_strategy_update h p) = map_sum (\<lambda>e. e) (review_strategy_update h) (check_init_param p)"
  by (simp add: check_init_param_def split: option.split)

lemma check_max_iter_rs:
  "check_max_iter (review_strategy_update h p) = map_sum (\<lambda>e. e) (review_strategy_update h) (check_max_iter p)"
  by (simp add: check_max_iter_def)

lemma check_early_stop_rs:
  "check_early_stop (review_strategy_update h p) = map_sum (\<lambda>e. e) (review_strategy_update h) (check_early_stop p)"
  by (simp add: check_early_stop_def split: pyval.split)

lemma check_encrypt_param_rs:
  "check_encrypt_param c (review_strategy_update h p) = map_sum (\<lambda>e. e) (review_strategy_update h) (check_encrypt_param c p)"
  by (simp add: check_encrypt_param_def split: option.split)

lemma check_decay_rs:
  "check_decay (review_strategy_update h p) = map_sum (\<lambda>e. e) (review_strategy_update h) (check_decay p)"
  by (simp add: check_decay_def)

lemma check_decay_sqrt_rs:
  "check_decay_sqrt (review_strategy_update h p) = map_sum (\<lambda>e. e) (review_strategy_update h) (check_decay_sqrt p)"
  by (simp add: check_decay_sqrt_def)

lemma check_stepwise_param_rs:
  "check_stepwise_param (review_strategy_update h p) = map_sum (\<lambda>e. e) (review_strategy_update h) (check_stepwise_param p)"
  by (simp add: check_stepwise_param_def split: option.split)

lemma check_validation_freqs_rs:
  "check_validation_freqs (review_strategy_update h p) = map_sum (\<lambda>e. e) (review_strategy_update h) (check_validation_freqs p)"
  by (simp add: check_validation_freqs_def)

lemma check_early_stopping_rounds_rs:
  "check_early_stopping_rounds (review_strategy_update h p) = map_sum (\<lambda>e. e) (review_strategy_update h) (check_early_stopping_rounds p)"
  by (simp add: check_early_stopping_rounds_def)

lemma check_metrics_rs:
  "check_metrics (review_strategy_update h p) = map_sum (\<lambda>e. e) (review_strategy_update h) (check_metrics p)"
  by (simp add: check_metrics_def)

lemma check_use_first_metric_only_rs:
  "check_use_first_metric_only (review_strategy_update h p) = map_sum (\<lambda>e. e) (review_strategy_update h) (check_use_first_metric_only p)"
  by (simp add: check_use_first_metric_only_def)

lemma check_floating_point_precision_rs:
  "check_floating_point_precision (review_strategy_update h p) = map_sum (\<lambda>e. e) (review_strategy_update h) (check_floating_point_precision p)"
  by (simp add: check_floating_point_precision_def)

lemmas gate_rs = check_penalty_rs check_tol_rs check_alpha_rs check_optimizer_rs check_batch_size_rs check_learning_rate_rs check_init_param_rs check_max_iter_rs check_early_stop_rs check_encrypt_param_rs check_decay_rs check_decay_sqrt_rs check_stepwise_param_rs check_validation_freqs_rs check_early_stopping_rounds_rs check_metrics_rs check_use_first_metric_only_rs check_floating_point_precision_rs


lemma check_unfold_rs:
  "check c p =
     (case seq_checks (gates_before_review_strategy c) p of
        Inl e \<Rightarrow> Inl e
      | Inr p1 \<Rightarrow> check_review_strategy c p1)"
  by (simp add: check_def gates_before_review_strategy_def seq_checks_append split: sum.splits)

lemma before_rs:
  "seq_checks (gates_before_review_strategy c) (review_strategy_update h p)
   = map_sum (\<lambda>e. e) (review_strategy_update h) (seq_checks (gates_before_review_strategy c) p)"
  by (rule seq_checks_commute)
     (auto simp: gates_before_review_strategy_def gates_before_batch_size_def
        gates_after_batch_size_def gate_rs)

lemma before_keeps_review_strategy:
  assumes "seq_checks (gates_before_review_strategy c) p = Inr p'"
  shows "review_strategy p' = review_strategy p"
proof -
  have "seq_checks (gates_before_review_strategy c) (review_strategy_update (\<lambda>_. review_strategy p) p)
        = map_sum (\<lambda>e. e) (review_strategy_update (\<lambda>_. review_strategy p))
            (seq_checks (gates_before_review_strategy c) p)"
    by (rule before_rs)
  then have "p' = review_strategy_update (\<lambda>_. review_strategy p) p'" using assms by simp
  then have "review_strategy p' = review_strategy (review_strategy_update (\<lambda>_. review_strategy p) p')"
    by simp
  then show ?thesis by simp
qed

lemma lower_respectively: "lower ''respectively'' = ''respectively''"
  by (simp add: string_defs)

lemma check_review_strategy_respectively:
  "check_review_strategy c (p\<lparr>review_strategy := PyStr ''respectively''\<rparr>)
   = Inr (p\<lparr>review_strategy := PyStr ''respectively''\<rparr>)"
  by (simp add: check_review_strategy_def check_valid_value_def lower_respectively)

lemma check_review_strategy_guest_only:
  assumes "review_strategy p = PyStr s" and "lower s = ''all_review_in_guest''"
  shows "check_review_strategy c p =
     (if ALLOW_REVIEW_GUEST_ONLY c then Inr (p\<lparr>review_strategy := PyStr ''all_review_in_guest''\<rparr>)
      else Inl (PermissionError ''review strategy: all_review_in_guest has not been authorized.''))"
  using assms by (simp add: check_review_strategy_def check_valid_value_def)

lemma check_respectively:
  "check c (p\<lparr>review_strategy := PyStr ''respectively''\<rparr>) =
     (case seq_checks (gates_before_review_strategy c) p of
        Inl e \<Rightarrow> Inl e
      | Inr p1 \<Rightarrow> Inr (p1\<lparr>review_strategy := PyStr ''respectively''\<rparr>))"
  using before_rs [of c "\<lambda>_. PyStr ''respectively''" p]
  by (cases "seq_checks (gates_before_review_strategy c) p")
     (simp_all add: check_unfold_rs check_review_strategy_respectively)

lemma check_guest_only:
  assumes "review_strategy p = PyStr s" and "lower s = ''all_review_in_guest''"
  shows "check c p =
     (case seq_checks (gates_before_review_strategy c) p of
        Inl e \<Rightarrow> Inl e
      | Inr p1 \<Rightarrow>
          (if ALLOW_REVIEW_GUEST_ONLY c then Inr (p1\<lparr>review_strategy := PyStr ''all_review_in_guest''\<rparr>)
           else Inl (PermissionError ''review strategy: all_review_in_guest has not been authorized.'')))"
proof (cases "seq_checks (gates_before_review_strategy c) p")
  case (Inl e)
  then show ?thesis by (simp add: check_unfold_rs)
next
  case (Inr p1)
  have "review_strategy p1 = PyStr s"
    using before_keeps_review_strategy [OF Inr] assms(1) by simp
  then show ?thesis
    using Inr check_review_strategy_guest_only [of p1 s c] assms(2) by (simp add: check_unfold_rs)
qed

text \<open>
  Claim C5.  Let the review strategy, lower-cased, be \<open>all_review_in_guest\<close>.  Without
  the flag \<open>ALLOW_REVIEW_GUEST_ONLY\<close>, \<open>check()\<close> raises: the final block raises
  \<open>PermissionError\<close>, and that is the error of \<open>check()\<close> for every object that would
  pass with the strategy \<open>respectively\<close>.  With the flag, the final block accepts the
  strategy, and \<open>check()\<close> raises exactly what it raises for \<open>respectively\<close>.
\<close>

theorem check_refuses_unauthorized_guest_only:
  "review_strategy p = PyStr s \<and> lower s = ''all_review_in_guest'' \<longrightarrow>
     (\<not> ALLOW_REVIEW_GUEST_ONLY c \<longrightarrow>
        (\<exists>e. check c p = Inl e)
        \<and> check_review_strategy c p
            = Inl (PermissionError ''review strategy: all_review_in_guest has not been authorized.'')
        \<and> (\<forall>q. check c (p\<lparr>review_strategy := PyStr ''respectively''\<rparr>) = Inr q \<longrightarrow>
              check c p = Inl (PermissionError ''review strategy: all_review_in_guest has not been authorized.'')))
     \<and> (ALLOW_REVIEW_GUEST_ONLY c \<longrightarrow>
          check_review_strategy c p = Inr (p\<lparr>review_strategy := PyStr ''all_review_in_guest''\<rparr>)
          \<and> (\<forall>e. check c p = Inl e \<longleftrightarrow>
                 check c (p\<lparr>review_strategy := PyStr ''respectively''\<rparr>) = Inl e))"
proof (intro impI)
  assume h: "review_strategy p = PyStr s \<and> lower s = ''all_review_in_guest''"
  then have rs: "review_strategy p = PyStr s" and lo: "lower s = ''all_review_in_guest''"
    by simp_all
  note full = check_guest_only [OF rs lo, of c]
  note gate = check_review_strategy_guest_only [OF rs lo, of c]
  note resp = check_respectively [of c p]
  show "(\<not> ALLOW_REVIEW_GUEST_ONLY c \<longrightarrow>
        (\<exists>e. check c p = Inl e)
        \<and> check_review_strategy c p
            = Inl (PermissionError ''review strategy: all_review_in_guest has not been authorized.'')
        \<and> (\<forall>q. check c (p\<lparr>review_strategy := PyStr ''respectively''\<rparr>) = Inr q \<longrightarrow>
              check c p = Inl (PermissionError ''review strategy: all_review_in_guest has not been authorized.'')))
     \<and> (ALLOW_REVIEW_GUEST_ONLY c \<longrightarrow>
          check_review_strategy c p = Inr (p\<lparr>review_strategy := PyStr ''all_review_in_guest''\<rparr>)
          \<and> (\<forall>e. check c p = Inl e \<longleftrightarrow>
                 check c (p\<lparr>review_strategy := PyStr ''respectively''\<rparr>) = Inl e))"
    using full gate resp
    by (cases "seq_checks (gates_before_review_strategy c) p") auto
qed

theorem check_refuses_unauthorized_guest_only_witness:
  "review_strategy (sample_param\<lparr>review_strategy := PyStr ''ALL_review_in_Guest''\<rparr>) = PyStr ''ALL_review_in_Guest''
   \<and> lower ''ALL_review_in_Guest'' = ''all_review_in_guest''
   \<and> \<not> ALLOW_REVIEW_GUEST_ONLY sample_consts
   \<and> check sample_consts (sample_param\<lparr>review_strategy := PyStr ''ALL_review_in_Guest''\<rparr>)
       = Inl (PermissionError ''review strategy: all_review_in_guest has not been authorized.'')
   \<and> ALLOW_REVIEW_GUEST_ONLY (sample_consts\<lparr>ALLOW_REVIEW_GUEST_ONLY := True\<rparr>)
   \<and> (\<forall>e. check (sample_consts\<lparr>ALLOW_REVIEW_GUEST_ONLY := True\<rparr>)
              (sample_param\<lparr>review_strategy := PyStr ''ALL_review_in_Guest''\<rparr>) \<noteq> Inl e)"
proof -
  have lo: "lower ''ALL_review_in_Guest'' = ''all_review_in_guest''"
    by (simp add: string_defs)
  have rs: "sample_param\<lparr>review_strategy := PyStr ''respectively''\<rparr> = sample_param"
    by (simp add: sample_param_def default_param_def)
  have ok: "check (sample_consts\<lparr>ALLOW_REVIEW_GUEST_ONLY := True\<rparr>) sample_param = Inr sample_param"
    by (simp add: sample_consts_def sample_param_def default_param_def gate_defs string_defs)
  show ?thesis
    using check_refuses_unauthorized_guest_only
        [of "sample_param\<lparr>review_strategy := PyStr ''ALL_review_in_Guest''\<rparr>"
            "''ALL_review_in_Guest''" sample_consts]
      check_refuses_unauthorized_guest_only
        [of "sample_param\<lparr>review_strategy := PyStr ''ALL_review_in_Guest''\<rparr>"
            "''ALL_review_in_Guest''" "sample_consts\<lparr>ALLOW_REVIEW_GUEST_ONLY := True\<rparr>"]
      lo rs ok check_sample_param
    by (simp add: sample_consts_def)
qed

section \<open>Properties of the operations of \<open>HeteroLRBase\<close>\<close>

text \<open>
  Claim C8.  The three operations of the base class raise \<open>NotImplementedError\<close> whatever
  their arguments are, and so they never return a value.  An object that dispatches to
  them does not get past the first one: \<open>fit_binary\<close> leaves with that exception at the
  public-key exchange, before any share exists.
\<close>

theorem base_operations_raise:
  "cal_prediction self w_self w_remote features sp suffix = Inl (NotImplementedError ''Should not call here'')
   \<and> compute_gradient self' wa wb err features' suffix' = Inl (NotImplementedError ''Should not call here'')
   \<and> transfer_pubkey self'' = Inl (NotImplementedError ''Should not call here'')
   \<and> fit_binary (base_variant s) x w encoded_batch_data s
       = Inl (NotImplementedError ''Should not call here'', record_call Transfer_pubkey s)"
  by (simp add: cal_prediction_def compute_gradient_def transfer_pubkey_def fit_binary_def
        base_variant_def Let_def)

text \<open>
  Claim C2, as stated, fails: on HOST the pair is not (peer share, own share).  With the
  constructor that keeps its arguments, the first component is the one built from the
  local weights.
\<close>

theorem share_init_model_host_pair_counterexample:
  "share_init_model From_source (sample_lr HOST) [Float 1, Float 2] \<lparr>encoder_n = 35\<rparr> (- 1)
   \<noteq> (From_source ''wb_-1'' (From_party (other_party (sample_lr HOST))) \<lparr>encoder_n = 35\<rparr> 1048576,
      From_source ''wa_-1'' (From_array [Float 1, Float 2]) \<lparr>encoder_n = 35\<rparr> 1048576)"
  by (simp add: share_init_model_def sample_lr_def Let_def str_int_def str_nat.simps)

text \<open>
  Claim C2, amended.  In both roles the first component of the pair is built from the
  local weights \<open>w\<close> and the second from the other party; the role decides the names
  only: GUEST's pair is named (\<open>wb\<close>, \<open>wa\<close>), HOST's (\<open>wa\<close>, \<open>wb\<close>).
\<close>

theorem share_init_model_own_share_first:
  "(party_role (local_party s) = GUEST \<longrightarrow>
      share_init_model mk s w enc k
      = (mk (''wb_'' @ str_int k) (From_array w) enc (self_random_field s),
         mk (''wa_'' @ str_int k) (From_party (other_party s)) enc (self_random_field s)))
   \<and> (party_role (local_party s) = HOST \<longrightarrow>
      share_init_model mk s w enc k
      = (mk (''wa_'' @ str_int k) (From_array w) enc (self_random_field s),
         mk (''wb_'' @ str_int k) (From_party (other_party s)) enc (self_random_field s)))"
  by (simp add: share_init_model_def Let_def)

theorem share_init_model_own_share_first_witness:
  "party_role (local_party (sample_lr GUEST)) = GUEST
   \<and> share_init_model From_source (sample_lr GUEST) [Float 1, Float 2] \<lparr>encoder_n = 35\<rparr> (- 1)
      = (From_source ''wb_-1'' (From_array [Float 1, Float 2]) \<lparr>encoder_n = 35\<rparr> 1048576,
         From_source ''wa_-1'' (From_party \<lparr>party_role = HOST, party_id = ''10000''\<rparr>) \<lparr>encoder_n = 35\<rparr> 1048576)
   \<and> party_role (local_party (sample_lr HOST)) = HOST
   \<and> share_init_model From_source (sample_lr HOST) [Float 1, Float 2] \<lparr>encoder_n = 35\<rparr> (- 1)
      = (From_source ''wa_-1'' (From_array [Float 1, Float 2]) \<lparr>encoder_n = 35\<rparr> 1048576,
         From_source ''wb_-1'' (From_party \<lparr>party_role = GUEST, party_id = ''10000''\<rparr>) \<lparr>encoder_n = 35\<rparr> 1048576)"
  using share_init_model_own_share_first [of "sample_lr GUEST" From_source "[Float 1, Float 2]" "\<lparr>encoder_n = 35\<rparr>" "- 1"]
    share_init_model_own_share_first [of "sample_lr HOST" From_source "[Float 1, Float 2]" "\<lparr>encoder_n = 35\<rparr>" "- 1"]
  by (simp add: sample_lr_def str_int_def str_nat.simps)

text \<open>
  Claim C9.  On HOST, \<open>share_z\<close> encrypts the value of the keyword argument \<open>z\<close>, sends
  the result to GUEST under the tag \<open>("z",) + suffix\<close> and returns \<open>None\<close>.  On GUEST it
  gets one table from HOST under that tag and returns a triple whose components are all
  the same tensor, whose value is the table as received.
\<close>

theorem share_z_by_role:
  "(role s = HOST \<and> kwargs ''z'' = Some z \<longrightarrow>
      share_z x s suffix kwargs
      = Inr (None,
             record_call (Remote_encrypted_share_matrix (distribute_encrypt x (table_value z))
                            GUEST (PyStr ''z'' # suffix)) s))
   \<and> (role s = GUEST \<and> fixpoint_encoder s = Some enc \<longrightarrow>
      share_z x s suffix kwargs
      = Inr (Some (\<lparr> paillier_value = encrypted_share_matrix_get x HOST 0 (PyStr ''z'' # suffix),
                      paillier_q_field = encoder_n enc, paillier_endec = enc \<rparr>,
                   \<lparr> paillier_value = encrypted_share_matrix_get x HOST 0 (PyStr ''z'' # suffix),
                      paillier_q_field = encoder_n enc, paillier_endec = enc \<rparr>,
                   \<lparr> paillier_value = encrypted_share_matrix_get x HOST 0 (PyStr ''z'' # suffix),
                      paillier_q_field = encoder_n enc, paillier_endec = enc \<rparr>),
             record_call (Get_encrypted_share_matrix HOST 0 (PyStr ''z'' # suffix)) s))"
  by (simp add: share_z_def Let_def record_call_def)

theorem share_z_by_role_witness:
  "role (sample_lr HOST) = HOST
   \<and> [''z'' \<mapsto> \<lparr>table_value = [3, 4]\<rparr>] ''z'' = Some \<lparr>table_value = [3, 4]\<rparr>
   \<and> share_z sample_collaborators (sample_lr HOST) [PyInt 0, PyInt 1] [''z'' \<mapsto> \<lparr>table_value = [3, 4]\<rparr>]
      = Inr (None, (sample_lr HOST)
               \<lparr>trace := [Remote_encrypted_share_matrix [3, 4] GUEST [PyStr ''z'', PyInt 0, PyInt 1]]\<rparr>)
   \<and> role ((sample_lr GUEST)\<lparr>fixpoint_encoder := Some \<lparr>encoder_n = 35\<rparr>\<rparr>) = GUEST
   \<and> fixpoint_encoder ((sample_lr GUEST)\<lparr>fixpoint_encoder := Some \<lparr>encoder_n = 35\<rparr>\<rparr>) = Some \<lparr>encoder_n = 35\<rparr>
   \<and> share_z sample_collaborators ((sample_lr GUEST)\<lparr>fixpoint_encoder := Some \<lparr>encoder_n = 35\<rparr>\<rparr>)
        [PyInt 0, PyInt 1] Map.empty
      = Inr (Some (\<lparr>paillier_value = [7], paillier_q_field = 35, paillier_endec = \<lparr>encoder_n = 35\<rparr>\<rparr>,
                   \<lparr>paillier_value = [7], paillier_q_field = 35, paillier_endec = \<lparr>encoder_n = 35\<rparr>\<rparr>,
                   \<lparr>paillier_value = [7], paillier_q_field = 35, paillier_endec = \<lparr>encoder_n = 35\<rparr>\<rparr>),
             (sample_lr GUEST)
               \<lparr>fixpoint_encoder := Some \<lparr>encoder_n = 35\<rparr>,
                trace := [Get_encrypted_share_matrix HOST 0 [PyStr ''z'', PyInt 0, PyInt 1]]\<rparr>)"
  using share_z_by_role [where s = "sample_lr HOST" and kwargs = "[''z'' \<mapsto> \<lparr>table_value = [3, 4]\<rparr>]"
          and z = "\<lparr>table_value = [3, 4]\<rparr>" and x = sample_collaborators
          and suffix = "[PyInt 0, PyInt 1]"]
    share_z_by_role [where s = "(sample_lr GUEST)\<lparr>fixpoint_encoder := Some \<lparr>encoder_n = 35\<rparr>\<rparr>"
          and kwargs = Map.empty and enc = "\<lparr>encoder_n = 35\<rparr>" and x = sample_collaborators
          and suffix = "[PyInt 0, PyInt 1]"]
  by (simp add: sample_lr_def sample_collaborators_def record_call_def)

section \<open>Properties of the training loop\<close>

lemmas review_defs = review_models_def set_model_weights_def reconstruct_unilateral_def
  broadcast_reconstruct_share_def record_call_def final_state_def Let_def

lemma review_models_keeps:
  "n_iter (final_state (review_models x s w_self w_remote)) = n_iter s
   \<and> self_max_iter (final_state (review_models x s w_self w_remote)) = self_max_iter s
   \<and> role (final_state (review_models x s w_self w_remote)) = role s
   \<and> validation_strategy (final_state (review_models x s w_self w_remote)) = validation_strategy s
   \<and> is_converged (final_state (review_models x s w_self w_remote)) = is_converged s
   \<and> model_param (final_state (review_models x s w_self w_remote)) = model_param s"
  by (simp add: review_defs)

lemma review_models_trace:
  "\<exists>evs. trace (final_state (review_models x s w_self w_remote)) = trace s @ Review_models (n_iter s) # evs
         \<and> (\<forall>k. Review_models k \<notin> set evs) \<and> filter is_check_converge evs = []"
  by (simp add: review_defs)

lemma same_session_refl: "same_session s s"
  by (simp add: same_session_def)

lemma same_session_trans: "same_session s t \<Longrightarrow> same_session t u \<Longrightarrow> same_session s u"
  by (simp add: same_session_def)

lemma same_session_record_call: "same_session s (record_call ev s)"
  by (simp add: same_session_def record_call_def)

lemma review_models_session: "same_session s (final_state (review_models x s w_self w_remote))"
  using review_models_keeps [of x s w_self w_remote] by (simp add: same_session_def)

lemma after_gradient_final:
  "trace (final_state (after_gradient x s w_self w_remote))
     = trace (final_state (review_models x s w_self w_remote))
   \<and> is_converged (final_state (after_gradient x s w_self w_remote))
     = is_converged (final_state (review_models x s w_self w_remote))
   \<and> same_session (final_state (review_models x s w_self w_remote))
        (final_state (after_gradient x s w_self w_remote))"
  by (cases "review_models x s w_self w_remote")
     (auto simp: after_gradient_def final_state_def same_session_def)

lemma after_gradient_session: "same_session s (final_state (after_gradient x s w_self w_remote))"
  using after_gradient_final [of x s w_self w_remote] review_models_session [of s x w_self w_remote]
  by (blast intro: same_session_trans)

lemma after_gradient_trace:
  "\<exists>evs. trace (final_state (after_gradient x s w_self w_remote)) = trace s @ Review_models (n_iter s) # evs
         \<and> (\<forall>k. Review_models k \<notin> set evs) \<and> filter is_check_converge evs = []"
  using after_gradient_final [of x s w_self w_remote] review_models_trace [of x s w_self w_remote]
  by simp

lemma after_gradient_converged:
  "is_converged (final_state (after_gradient x s w_self w_remote)) = is_converged s"
  using after_gradient_final [of x s w_self w_remote] review_models_keeps [of x s w_self w_remote]
  by simp

lemma after_gradient_shares:
  "after_gradient x s w_self w_remote = Inr ((a, b, nw), s') \<Longrightarrow> a = w_self \<and> b = w_remote"
  by (auto simp: after_gradient_def split: sum.splits prod.splits)

lemma batch_step_unfold:
  "batch_step m x sp s w_self w_remote i b =
     (let sfx = [PyInt (n_iter s), PyInt (int i)];
          s1 = record_call (Cal_prediction w_self w_remote sfx) s;
          wa = (if role s = GUEST then w_remote else w_self);
          wb = (if role s = GUEST then w_self else w_remote);
          s2 = record_call (Compute_gradient wa wb sfx) s1
      in case variant_cal_prediction m w_self w_remote b sp sfx of
           Inl e \<Rightarrow> Inl (e, s1)
         | Inr y \<Rightarrow>
             (case variant_compute_gradient m wa wb (if role s = GUEST then label_error x y else y) b sfx of
                Inl e \<Rightarrow> Inl (e, s2)
              | Inr (r1, r2) \<Rightarrow>
                  after_gradient x s2 (if role s = GUEST then r2 else r1)
                    (if role s = GUEST then r1 else r2)))"
  by (simp add: batch_step_def Let_def record_call_def split: sum.splits prod.splits)

lemma batch_step_final:
  "same_session s (final_state (batch_step m x sp s w_self w_remote i b))
   \<and> is_converged (final_state (batch_step m x sp s w_self w_remote i b)) = is_converged s
   \<and> (\<exists>evs. trace (final_state (batch_step m x sp s w_self w_remote i b))
               = trace s @ Cal_prediction w_self w_remote [PyInt (n_iter s), PyInt (int i)] # evs
             \<and> filter is_check_converge evs = [])"
proof -
  define sfx where "sfx = [PyInt (n_iter s), PyInt (int i)]"
  define s1 where "s1 = record_call (Cal_prediction w_self w_remote sfx) s"
  define wa where "wa = (if role s = GUEST then w_remote else w_self)"
  define wb where "wb = (if role s = GUEST then w_self else w_remote)"
  define s2 where "s2 = record_call (Compute_gradient wa wb sfx) s1"
  have s1: "same_session s s1" "is_converged s1 = is_converged s"
    "trace s1 = trace s @ [Cal_prediction w_self w_remote sfx]"
    by (simp_all add: s1_def same_session_def record_call_def)
  have s2: "same_session s s2" "is_converged s2 = is_converged s"
    "trace s2 = trace s @ [Cal_prediction w_self w_remote sfx, Compute_gradient wa wb sfx]"
    using s1 by (simp_all add: s2_def same_session_def record_call_def)
  show ?thesis
  proof (cases "variant_cal_prediction m w_self w_remote b sp sfx")
    case (Inl e)
    then show ?thesis
      using s1 by (simp add: batch_step_unfold Let_def final_state_def sfx_def [symmetric] s1_def [symmetric])
  next
    case y: (Inr y)
    show ?thesis
    proof (cases "variant_compute_gradient m wa wb (if role s = GUEST then label_error x y else y) b sfx")
      case (Inl e)
      then show ?thesis
        using y s2
        by (simp add: batch_step_unfold Let_def final_state_def sfx_def [symmetric]
              s1_def [symmetric] wa_def [symmetric] wb_def [symmetric] s2_def [symmetric])
    next
      case (Inr r)
      obtain r1 r2 where r: "r = (r1, r2)" by (cases r)
      define ws' where "ws' = (if role s = GUEST then r2 else r1)"
      define wr' where "wr' = (if role s = GUEST then r1 else r2)"
      have eq: "batch_step m x sp s w_self w_remote i b = after_gradient x s2 ws' wr'"
        using y Inr r
        by (simp add: batch_step_unfold Let_def sfx_def [symmetric]
              s1_def [symmetric] wa_def [symmetric] wb_def [symmetric] s2_def [symmetric]
              ws'_def wr'_def)
      obtain evs where evs:
        "trace (final_state (after_gradient x s2 ws' wr')) = trace s2 @ Review_models (n_iter s2) # evs"
        "filter is_check_converge evs = []"
        using after_gradient_trace [of x s2 ws' wr'] by blast
      have "same_session s (final_state (after_gradient x s2 ws' wr'))"
        using s2(1) after_gradient_session [of s2 x ws' wr'] by (rule same_session_trans)
      moreover have "is_converged (final_state (after_gradient x s2 ws' wr')) = is_converged s"
        using s2(2) by (simp add: after_gradient_converged)
      moreover have "trace (final_state (after_gradient x s2 ws' wr'))
          = trace s @ Cal_prediction w_self w_remote sfx # (Compute_gradient wa wb sfx # Review_models (n_iter s2) # evs)"
        using evs(1) s2(3) by simp
      moreover have "filter is_check_converge (Compute_gradient wa wb sfx # Review_models (n_iter s2) # evs) = []"
        using evs(2) by simp
      ultimately show ?thesis
        unfolding eq sfx_def by blast
    qed
  qed
qed

lemma batch_step_reviews:
  assumes "batch_step m x sp s w_self w_remote i b = Inr (r, s')"
  shows "count_list (trace s') (Review_models k)
         = count_list (trace s) (Review_models k) + (if k = n_iter s then 1 else 0)"
proof -
  define sfx where "sfx = [PyInt (n_iter s), PyInt (int i)]"
  define wa where "wa = (if role s = GUEST then w_remote else w_self)"
  define wb where "wb = (if role s = GUEST then w_self else w_remote)"
  define s2 where "s2 = record_call (Compute_gradient wa wb sfx)
                          (record_call (Cal_prediction w_self w_remote sfx) s)"
  have s2: "n_iter s2 = n_iter s"
    "trace s2 = trace s @ [Cal_prediction w_self w_remote sfx, Compute_gradient wa wb sfx]"
    by (simp_all add: s2_def record_call_def)
  from assms obtain ws' wr' where eq: "after_gradient x s2 ws' wr' = Inr (r, s')"
    by (auto simp: batch_step_unfold Let_def sfx_def [symmetric] wa_def [symmetric]
          wb_def [symmetric] s2_def [symmetric] split: sum.splits prod.splits)
  obtain evs where evs:
    "trace (final_state (after_gradient x s2 ws' wr')) = trace s2 @ Review_models (n_iter s2) # evs"
    "\<forall>k. Review_models k \<notin> set evs"
    using after_gradient_trace [of x s2 ws' wr'] by blast
  have "count_list evs (Review_models k) = 0"
    using evs(2) by (simp add: count_list_0_iff)
  moreover have "trace s' = trace s2 @ Review_models (n_iter s2) # evs"
    using evs(1) eq by (simp add: final_state_def)
  ultimately show ?thesis
    using s2 by auto
qed

lemma batch_loop_final:
  "same_session s (final_state (batch_loop m x sp s w_self w_remote nw i bs))
   \<and> is_converged (final_state (batch_loop m x sp s w_self w_remote nw i bs)) = is_converged s
   \<and> filter is_check_converge (trace (final_state (batch_loop m x sp s w_self w_remote nw i bs)))
       = filter is_check_converge (trace s)"
proof (induction bs arbitrary: s w_self w_remote nw i)
  case Nil
  show ?case by (simp add: final_state_def same_session_refl)
next
  case (Cons b bs)
  note step = batch_step_final [of s m x sp w_self w_remote i b]
  show ?case
  proof (cases "batch_step m x sp s w_self w_remote i b")
    case (Inl err)
    then have "final_state (batch_loop m x sp s w_self w_remote nw i (b # bs))
               = final_state (batch_step m x sp s w_self w_remote i b)"
      by (simp add: final_state_def)
    with step show ?thesis by auto
  next
    case (Inr r)
    obtain a c d s' where r: "r = ((a, c, d), s')" by (cases r) auto
    have fs: "final_state (batch_step m x sp s w_self w_remote i b) = s'"
      using Inr r by (simp add: final_state_def)
    have eq: "batch_loop m x sp s w_self w_remote nw i (b # bs)
              = batch_loop m x sp s' a c (Some d) (Suc i) bs"
      using Inr r by simp
    from step fs Cons.IH [of s' a c "Some d" "Suc i"]
    show ?thesis unfolding eq by (auto intro: same_session_trans)
  qed
qed

lemma batch_loop_reviews:
  "batch_loop m x sp s w_self w_remote nw i bs = Inr (r, s') \<Longrightarrow>
   count_list (trace s') (Review_models (n_iter s))
   = count_list (trace s) (Review_models (n_iter s)) + length bs"
proof (induction bs arbitrary: s w_self w_remote nw i)
  case Nil
  then show ?case by simp
next
  case (Cons b bs)
  from Cons.prems obtain a c d s1 where
    step: "batch_step m x sp s w_self w_remote i b = Inr ((a, c, d), s1)"
    and rest: "batch_loop m x sp s1 a c (Some d) (Suc i) bs = Inr (r, s')"
    by (auto split: sum.splits prod.splits)
  have n: "n_iter s1 = n_iter s"
    using batch_step_final [of s m x sp w_self w_remote i b] step
    by (simp add: final_state_def same_session_def)
  from Cons.IH [OF rest] batch_step_reviews [OF step, of "n_iter s"] n
  show ?case by simp
qed

lemma batch_loop_new_w:
  "batch_loop m x sp s w_self w_remote nw i bs = Inr ((a, c, nw'), s') \<Longrightarrow>
   (nw' = None \<longleftrightarrow> nw = None \<and> bs = [])"
proof (induction bs arbitrary: s w_self w_remote nw i)
  case Nil
  then show ?case by auto
next
  case (Cons b bs)
  from Cons.prems obtain a1 c1 d s1 where
    rest: "batch_loop m x sp s1 a1 c1 (Some d) (Suc i) bs = Inr ((a, c, nw'), s')"
    by (auto split: sum.splits prod.splits)
  from Cons.IH [OF rest] show ?case by simp
qed

lemma epoch_success:
  assumes "epoch m x sp bs s w_self w_remote lm nw = Inr ((a, c, nw', brk), s')"
  shows "same_session s s'"
    and "is_converged s' = check_converge x lm nw' [PyInt (n_iter s)]"
    and "brk = ((\<exists>v. validation_strategy s = Some v \<and> need_stop v (n_iter s)) \<or> is_converged s')"
    and "epochs_completed s' = epochs_completed s + 1"
    and "count_list (trace s') (Review_models (n_iter s))
         = count_list (trace s) (Review_models (n_iter s)) + length bs"
    and "nw = None \<longrightarrow> bs \<noteq> []"
proof -
  from assms obtain s1 where
    bl: "batch_loop m x sp s w_self w_remote nw 0 bs = Inr ((a, c, Some nw'), s1)"
    by (auto simp: epoch_def Let_def split: sum.splits prod.splits option.splits)
  from assms bl have s': "s' = fst (validate_step (check_converge_step x lm nw' s1))"
    and brk: "brk = (snd (validate_step (check_converge_step x lm nw' s1)) \<or> is_converged s')"
    by (auto simp: epoch_def Let_def split: sum.splits prod.splits option.splits)
  note fl = batch_loop_final [of s m x sp w_self w_remote nw 0 bs]
  have fs: "final_state (batch_loop m x sp s w_self w_remote nw 0 bs) = s1"
    using bl by (simp add: final_state_def)
  have ss1: "same_session s s1" using fl fs by simp
  have cc1: "filter is_check_converge (trace s1) = filter is_check_converge (trace s)"
    using fl fs by simp
  show "same_session s s'"
    using ss1 by (auto simp: s' same_session_def validate_step_def check_converge_step_def
        record_call_def split: option.splits)
  show "is_converged s' = check_converge x lm nw' [PyInt (n_iter s)]"
    using ss1 by (auto simp: s' same_session_def validate_step_def check_converge_step_def
        record_call_def split: option.splits)
  show "brk = ((\<exists>v. validation_strategy s = Some v \<and> need_stop v (n_iter s)) \<or> is_converged s')"
    using ss1 unfolding brk
    by (auto simp: s' same_session_def validate_step_def check_converge_step_def
        record_call_def split: option.splits)
  show "epochs_completed s' = epochs_completed s + 1"
    using cc1 by (auto simp: s' epochs_completed_def validate_step_def check_converge_step_def
        record_call_def split: option.splits)
  have "count_list (trace s') (Review_models (n_iter s)) = count_list (trace s1) (Review_models (n_iter s))"
    by (auto simp: s' validate_step_def check_converge_step_def record_call_def split: option.splits)
  then show "count_list (trace s') (Review_models (n_iter s))
         = count_list (trace s) (Review_models (n_iter s)) + length bs"
    using batch_loop_reviews [OF bl] by simp
  show "nw = None \<longrightarrow> bs \<noteq> []"
    using batch_loop_new_w [OF bl] by auto
qed

lemma epoch_failure:
  assumes "epoch m x sp bs s w_self w_remote lm nw = Inl (e, s')"
  shows "epochs_completed s' = epochs_completed s"
proof -
  note fl = batch_loop_final [of s m x sp w_self w_remote nw 0 bs]
  from assms have "s' = final_state (batch_loop m x sp s w_self w_remote nw 0 bs)"
    by (auto simp: epoch_def Let_def final_state_def split: sum.splits prod.splits option.splits)
  with fl show ?thesis by (simp add: epochs_completed_def)
qed

lemma fit_binary_loop_epochs:
  "epochs_completed (final_state (fit_binary_loop m x sp bs s w_self w_remote lm nw))
   \<le> epochs_completed s + nat (self_max_iter s - n_iter s)"
proof (induction m x sp bs s w_self w_remote lm nw rule: fit_binary_loop.induct)
  case (1 m x sp bs s w_self w_remote lm nw)
  show ?case
  proof (cases "n_iter s < self_max_iter s")
    case False
    then show ?thesis
      by (simp add: fit_binary_loop.simps [of m x sp bs s] final_state_def)
  next
    case lt: True
    show ?thesis
    proof (cases "epoch m x sp bs s w_self w_remote lm nw")
      case (Inl err)
      obtain e s' where err: "err = (e, s')" by (cases err)
      have "final_state (fit_binary_loop m x sp bs s w_self w_remote lm nw) = s'"
        using lt Inl err by (simp add: fit_binary_loop.simps [of m x sp bs s] final_state_def)
      then show ?thesis
        using epoch_failure [OF Inl [unfolded err]] by simp
    next
      case (Inr r)
      obtain a c nw' brk s' where r: "r = ((a, c, nw', brk), s')" by (cases r) auto
      note ep = epoch_success [OF Inr [unfolded r]]
      show ?thesis
      proof (cases brk)
        case True
        have "final_state (fit_binary_loop m x sp bs s w_self w_remote lm nw) = s'"
          using lt Inr r True by (simp add: fit_binary_loop.simps [of m x sp bs s] final_state_def)
        then show ?thesis using ep(4) lt by simp
      next
        case False
        have eq: "fit_binary_loop m x sp bs s w_self w_remote lm nw
                  = fit_binary_loop m x sp bs (s'\<lparr>n_iter := n_iter s' + 1\<rparr>) a c
                      (nw', hosted_model_weights s') (Some nw')"
          using lt Inr r False by (simp add: fit_binary_loop.simps [of m x sp bs s])
        have IH: "epochs_completed (final_state (fit_binary_loop m x sp bs (s'\<lparr>n_iter := n_iter s' + 1\<rparr>) a c
                      (nw', hosted_model_weights s') (Some nw')))
                  \<le> epochs_completed (s'\<lparr>n_iter := n_iter s' + 1\<rparr>)
                     + nat (self_max_iter (s'\<lparr>n_iter := n_iter s' + 1\<rparr>) - n_iter (s'\<lparr>n_iter := n_iter s' + 1\<rparr>))"
          using "1.IH" lt Inr r False by auto
        have "epochs_completed (s'\<lparr>n_iter := n_iter s' + 1\<rparr>) = epochs_completed s + 1"
          using ep(4) by (simp add: epochs_completed_def)
        moreover have "self_max_iter s' = self_max_iter s" "n_iter s' = n_iter s"
          using ep(1) by (simp_all add: same_session_def)
        ultimately show ?thesis
          using IH lt unfolding eq by simp
      qed
    qed
  qed
qed

lemma fit_binary_loop_exit:
  "fit_binary_loop m x sp bs s w_self w_remote lm nw = Inr (u, s') \<Longrightarrow>
   self_max_iter s' = self_max_iter s \<and> validation_strategy s' = validation_strategy s
   \<and> n_iter s \<le> n_iter s'
   \<and> (is_converged s' \<or> self_max_iter s' \<le> n_iter s'
        \<or> (\<exists>v. validation_strategy s' = Some v \<and> need_stop v (n_iter s')))"
proof (induction m x sp bs s w_self w_remote lm nw rule: fit_binary_loop.induct)
  case (1 m x sp bs s w_self w_remote lm nw)
  show ?case
  proof (cases "n_iter s < self_max_iter s")
    case False
    then show ?thesis
      using "1.prems" by (simp add: fit_binary_loop.simps [of m x sp bs s])
  next
    case lt: True
    show ?thesis
    proof (cases "epoch m x sp bs s w_self w_remote lm nw")
      case (Inl err)
      then show ?thesis
        using lt "1.prems" by (simp add: fit_binary_loop.simps [of m x sp bs s])
    next
      case (Inr r)
      obtain a c nw' brk s1 where r: "r = ((a, c, nw', brk), s1)" by (cases r) auto
      note ep = epoch_success [OF Inr [unfolded r]]
      have keep: "self_max_iter s1 = self_max_iter s" "n_iter s1 = n_iter s"
        "validation_strategy s1 = validation_strategy s"
        using ep(1) by (simp_all add: same_session_def)
      show ?thesis
      proof (cases brk)
        case True
        have "s' = s1"
          using lt Inr r True "1.prems" by (simp add: fit_binary_loop.simps [of m x sp bs s])
        then show ?thesis using ep(3) keep True by auto
      next
        case False
        have eq: "fit_binary_loop m x sp bs (s1\<lparr>n_iter := n_iter s1 + 1\<rparr>) a c
                      (nw', hosted_model_weights s1) (Some nw') = Inr (u, s')"
          using lt Inr r False "1.prems" by (simp add: fit_binary_loop.simps [of m x sp bs s])
        have IH: "self_max_iter s' = self_max_iter (s1\<lparr>n_iter := n_iter s1 + 1\<rparr>)
            \<and> validation_strategy s' = validation_strategy (s1\<lparr>n_iter := n_iter s1 + 1\<rparr>)
            \<and> n_iter (s1\<lparr>n_iter := n_iter s1 + 1\<rparr>) \<le> n_iter s'
            \<and> (is_converged s' \<or> self_max_iter s' \<le> n_iter s'
                \<or> (\<exists>v. validation_strategy s' = Some v \<and> need_stop v (n_iter s')))"
          using "1.IH" [OF lt Inr [unfolded r] refl refl refl refl False eq] by auto
        then show ?thesis using keep by auto
      qed
    qed
  qed
qed

lemma fit_binary_loop_never_converged:
  "(\<And>lm nw sfx. \<not> check_converge x lm nw sfx) \<Longrightarrow>
         (\<And>v k. validation_strategy s = Some v \<Longrightarrow> \<not> need_stop v k) \<Longrightarrow>
         fit_binary_loop m x sp bs s w_self w_remote lm nw = Inr (u, s') \<Longrightarrow>
         (n_iter s < self_max_iter s \<longrightarrow>
            \<not> is_converged s' \<and> n_iter s' = self_max_iter s
            \<and> epochs_completed s' = epochs_completed s + nat (self_max_iter s - n_iter s))
         \<and> (\<not> n_iter s < self_max_iter s \<longrightarrow> s' = s)"
proof (induction m x sp bs s w_self w_remote lm nw rule: fit_binary_loop.induct)
  case (1 m x sp bs s w_self w_remote lm nw)
  note never = "1.prems"(1)
  note nostop = "1.prems"(2)
  note run = "1.prems"(3)
  show ?case
  proof (cases "n_iter s < self_max_iter s")
    case False
    then show ?thesis
      using run by (simp add: fit_binary_loop.simps [of m x sp bs s])
  next
    case lt: True
    show ?thesis
    proof (cases "epoch m x sp bs s w_self w_remote lm nw")
      case (Inl err)
      then show ?thesis
        using lt run by (simp add: fit_binary_loop.simps [of m x sp bs s])
    next
      case (Inr r)
      obtain a c nw' brk s1 where r: "r = ((a, c, nw', brk), s1)" by (cases r) auto
      note ep = epoch_success [OF Inr [unfolded r]]
      have keep: "self_max_iter s1 = self_max_iter s" "n_iter s1 = n_iter s"
        "validation_strategy s1 = validation_strategy s"
        using ep(1) by (simp_all add: same_session_def)
      have nc: "\<not> is_converged s1" using ep(2) never by simp
      have nb: "\<not> brk" using ep(3) nc nostop by auto
      define s2 where "s2 = s1\<lparr>n_iter := n_iter s1 + 1\<rparr>"
      have s2: "self_max_iter s2 = self_max_iter s" "n_iter s2 = n_iter s + 1"
        "validation_strategy s2 = validation_strategy s" "is_converged s2 = is_converged s1"
        "epochs_completed s2 = epochs_completed s + 1"
        using keep ep(4) by (simp_all add: s2_def epochs_completed_def)
      have eq: "fit_binary_loop m x sp bs s2 a c (nw', hosted_model_weights s1) (Some nw') = Inr (u, s')"
        using lt Inr r nb run by (simp add: fit_binary_loop.simps [of m x sp bs s] s2_def)
      have nostop2: "\<And>v k. validation_strategy s2 = Some v \<Longrightarrow> \<not> need_stop v k"
        using nostop s2(3) by simp
      have IH: "(n_iter s2 < self_max_iter s2 \<longrightarrow>
            \<not> is_converged s' \<and> n_iter s' = self_max_iter s2
            \<and> epochs_completed s' = epochs_completed s2 + nat (self_max_iter s2 - n_iter s2))
         \<and> (\<not> n_iter s2 < self_max_iter s2 \<longrightarrow> s' = s2)"
        using "1.IH" [OF lt Inr [unfolded r] refl refl refl refl nb, folded s2_def, OF never nostop2 eq]
        by simp
      show ?thesis
      proof (cases "n_iter s2 < self_max_iter s2")
        case True
        with IH s2 lt show ?thesis by auto
      next
        case False
        with IH have "s' = s2" by simp
        with False s2 nc lt show ?thesis by auto
      qed
    qed
  qed
qed

lemma batch_step_success:
  assumes "batch_step m x sp s w_self w_remote i b = Inr ((a, c, new_w), s')"
  shows "\<exists>y r1 r2 evs.
           variant_cal_prediction m w_self w_remote b sp [PyInt (n_iter s), PyInt (int i)] = Inr y
         \<and> variant_compute_gradient m (if role s = GUEST then w_remote else w_self)
               (if role s = GUEST then w_self else w_remote)
               (if role s = GUEST then label_error x y else y) b [PyInt (n_iter s), PyInt (int i)]
             = Inr (r1, r2)
         \<and> a = (if role s = GUEST then r2 else r1) \<and> c = (if role s = GUEST then r1 else r2)
         \<and> trace s' = trace s @ [Cal_prediction w_self w_remote [PyInt (n_iter s), PyInt (int i)],
                                   Compute_gradient (if role s = GUEST then w_remote else w_self)
                                     (if role s = GUEST then w_self else w_remote)
                                     [PyInt (n_iter s), PyInt (int i)],
                                   Review_models (n_iter s)] @ evs
         \<and> (\<forall>k. Review_models k \<notin> set evs)"
proof -
  define sfx where "sfx = [PyInt (n_iter s), PyInt (int i)]"
  define wa where "wa = (if role s = GUEST then w_remote else w_self)"
  define wb where "wb = (if role s = GUEST then w_self else w_remote)"
  define s2 where "s2 = record_call (Compute_gradient wa wb sfx)
                          (record_call (Cal_prediction w_self w_remote sfx) s)"
  have s2: "n_iter s2 = n_iter s"
    "trace s2 = trace s @ [Cal_prediction w_self w_remote sfx, Compute_gradient wa wb sfx]"
    by (simp_all add: s2_def record_call_def)
  from assms obtain y r1 r2 where
    y: "variant_cal_prediction m w_self w_remote b sp sfx = Inr y"
    and g: "variant_compute_gradient m wa wb (if role s = GUEST then label_error x y else y) b sfx = Inr (r1, r2)"
    and ag: "after_gradient x s2 (if role s = GUEST then r2 else r1) (if role s = GUEST then r1 else r2)
             = Inr ((a, c, new_w), s')"
    by (auto simp: batch_step_unfold Let_def sfx_def [symmetric] wa_def [symmetric]
          wb_def [symmetric] s2_def [symmetric] split: sum.splits prod.splits)
  obtain evs where evs:
    "trace (final_state (after_gradient x s2 (if role s = GUEST then r2 else r1)
                           (if role s = GUEST then r1 else r2)))
     = trace s2 @ Review_models (n_iter s2) # evs"
    "\<forall>k. Review_models k \<notin> set evs"
    using after_gradient_trace [of x s2] by blast
  have tr: "trace s' = trace s @ [Cal_prediction w_self w_remote sfx, Compute_gradient wa wb sfx,
                                   Review_models (n_iter s)] @ evs"
    using evs(1) ag s2 by (simp add: final_state_def)
  have ac: "a = (if role s = GUEST then r2 else r1) \<and> c = (if role s = GUEST then r1 else r2)"
    using after_gradient_shares [OF ag] by simp
  show ?thesis
    using y g ac tr evs(2) unfolding sfx_def wa_def wb_def by blast
qed

text \<open>
  Claim C4, amended.  The order of the arguments is fixed by owner, not by caller: \<open>wa\<close>
  is always the share of HOST's weights and \<open>wb\<close> the share of GUEST's.  GUEST passes
  \<open>wa = w_remote, wb = w_self\<close> and binds the result to \<open>(w_remote, w_self)\<close>; HOST passes
  \<open>wa = w_self, wb = w_remote\<close> and binds the result to \<open>(w_self, w_remote)\<close>.  In both
  roles the call follows the prediction and is followed by the review.
\<close>

theorem compute_gradient_arguments_by_owner:
  "batch_step m x sp s w_self w_remote i b = Inr ((w_self', w_remote', new_w), s') \<longrightarrow>
     (\<exists>y evs.
        variant_cal_prediction m w_self w_remote b sp [PyInt (n_iter s), PyInt (int i)] = Inr y
      \<and> (role s = GUEST \<longrightarrow>
           variant_compute_gradient m w_remote w_self (label_error x y) b [PyInt (n_iter s), PyInt (int i)]
             = Inr (w_remote', w_self')
           \<and> trace s' = trace s @ [Cal_prediction w_self w_remote [PyInt (n_iter s), PyInt (int i)],
                                     Compute_gradient w_remote w_self [PyInt (n_iter s), PyInt (int i)],
                                     Review_models (n_iter s)] @ evs)
      \<and> (role s = HOST \<longrightarrow>
           variant_compute_gradient m w_self w_remote y b [PyInt (n_iter s), PyInt (int i)]
             = Inr (w_self', w_remote')
           \<and> trace s' = trace s @ [Cal_prediction w_self w_remote [PyInt (n_iter s), PyInt (int i)],
                                     Compute_gradient w_self w_remote [PyInt (n_iter s), PyInt (int i)],
                                     Review_models (n_iter s)] @ evs))"
proof
  assume run: "batch_step m x sp s w_self w_remote i b = Inr ((w_self', w_remote', new_w), s')"
  from batch_step_success [OF run] obtain y r1 r2 evs where
    y: "variant_cal_prediction m w_self w_remote b sp [PyInt (n_iter s), PyInt (int i)] = Inr y"
    and g: "variant_compute_gradient m (if role s = GUEST then w_remote else w_self)
               (if role s = GUEST then w_self else w_remote)
               (if role s = GUEST then label_error x y else y) b [PyInt (n_iter s), PyInt (int i)]
             = Inr (r1, r2)"
    and ac: "w_self' = (if role s = GUEST then r2 else r1)" "w_remote' = (if role s = GUEST then r1 else r2)"
    and tr: "trace s' = trace s @ [Cal_prediction w_self w_remote [PyInt (n_iter s), PyInt (int i)],
                                   Compute_gradient (if role s = GUEST then w_remote else w_self)
                                     (if role s = GUEST then w_self else w_remote)
                                     [PyInt (n_iter s), PyInt (int i)],
                                   Review_models (n_iter s)] @ evs"
    by blast
  show "\<exists>y evs.
        variant_cal_prediction m w_self w_remote b sp [PyInt (n_iter s), PyInt (int i)] = Inr y
      \<and> (role s = GUEST \<longrightarrow>
           variant_compute_gradient m w_remote w_self (label_error x y) b [PyInt (n_iter s), PyInt (int i)]
             = Inr (w_remote', w_self')
           \<and> trace s' = trace s @ [Cal_prediction w_self w_remote [PyInt (n_iter s), PyInt (int i)],
                                     Compute_gradient w_remote w_self [PyInt (n_iter s), PyInt (int i)],
                                     Review_models (n_iter s)] @ evs)
      \<and> (role s = HOST \<longrightarrow>
           variant_compute_gradient m w_self w_remote y b [PyInt (n_iter s), PyInt (int i)]
             = Inr (w_self', w_remote')
           \<and> trace s' = trace s @ [Cal_prediction w_self w_remote [PyInt (n_iter s), PyInt (int i)],
                                     Compute_gradient w_self w_remote [PyInt (n_iter s), PyInt (int i)],
                                     Review_models (n_iter s)] @ evs)"
    using y g ac tr by (intro exI [of _ y] exI [of _ evs]) auto
qed

lemmas run_defs = fit_binary_def epoch_def batch_step_def after_gradient_def review_defs
  check_converge_step_def validate_step_def share_init_model_def

lemmas sample_defs = sample_variant_def sample_collaborators_def sample_lr_def sample_param_def
  default_param_def sample_wa_def sample_wb_def sample_spdz_def str_int_def str_nat.simps

lemma sample_batch_step_guest:
  "batch_step sample_variant sample_collaborators (sample_spdz GUEST) (sample_lr GUEST)
      sample_wb sample_wa 0 ()
   = Inr ((sample_wb, sample_wa, [0]),
          (sample_lr GUEST)
            \<lparr>model_weights := Some (LinearModelWeights [0] True),
             trace := [Cal_prediction sample_wb sample_wa [PyInt 0, PyInt 0],
                       Compute_gradient sample_wa sample_wb [PyInt 0, PyInt 0],
                       Review_models 0,
                       Reconstruct_unilateral sample_wb ''wb_0'',
                       Broadcast_reconstruct_share sample_wa ''wa_0'']\<rparr>)"
  by (simp add: run_defs sample_defs)

text \<open>
  Claim C4, as stated, fails: on GUEST the gradient step is not called with the caller's
  own share as \<open>wa\<close>.  With \<open>w_self = sample_wb\<close> and \<open>w_remote = sample_wa\<close>, the call
  that is made is \<open>compute_gradient(wa = w_remote, wb = w_self)\<close>.
\<close>

theorem compute_gradient_own_share_first_counterexample:
  "Compute_gradient sample_wb sample_wa [PyInt 0, PyInt 0]
     \<notin> set (trace (final_state (batch_step sample_variant sample_collaborators (sample_spdz GUEST)
                                  (sample_lr GUEST) sample_wb sample_wa 0 ())))
   \<and> Compute_gradient sample_wa sample_wb [PyInt 0, PyInt 0]
     \<in> set (trace (final_state (batch_step sample_variant sample_collaborators (sample_spdz GUEST)
                                  (sample_lr GUEST) sample_wb sample_wa 0 ())))"
  by (simp add: sample_batch_step_guest final_state_def) (simp add: sample_defs)

theorem compute_gradient_arguments_by_owner_witness:
  "batch_step sample_variant sample_collaborators (sample_spdz GUEST) (sample_lr GUEST)
      sample_wb sample_wa 0 ()
   = Inr ((sample_wb, sample_wa, [0]),
          (sample_lr GUEST)
            \<lparr>model_weights := Some (LinearModelWeights [0] True),
             trace := [Cal_prediction sample_wb sample_wa [PyInt 0, PyInt 0],
                       Compute_gradient sample_wa sample_wb [PyInt 0, PyInt 0],
                       Review_models 0,
                       Reconstruct_unilateral sample_wb ''wb_0'',
                       Broadcast_reconstruct_share sample_wa ''wa_0'']\<rparr>)
   \<and> role (sample_lr GUEST) = GUEST
   \<and> variant_compute_gradient sample_variant sample_wa sample_wb
        (label_error sample_collaborators ()) () [PyInt 0, PyInt 0]
      = Inr (sample_wa, sample_wb)"
  using compute_gradient_arguments_by_owner
      [of sample_variant sample_collaborators "sample_spdz GUEST" "sample_lr GUEST"
          sample_wb sample_wa 0 "()" sample_wb sample_wa "[0]"]
    sample_batch_step_guest
  by (auto simp: sample_lr_def)

text \<open>
  Claim C1, as stated, fails: under \<open>all_review_in_guest\<close>, a HOST whose own share has
  four entries is not stopped.  \<open>review_models\<close> returns and both shares have been
  broadcast.
\<close>

theorem review_models_host_dimension_counterexample:
  "2 < length (share_value \<lparr>tensor_name = ''wa_-1'', share_value = [1, 2, 3, 4]\<rparr>)
   \<and> review_models sample_collaborators (guest_only (sample_lr HOST))
        \<lparr>tensor_name = ''wa_-1'', share_value = [1, 2, 3, 4]\<rparr> sample_wb
      = Inr ([0, 0, 0, 0],
             (guest_only (sample_lr HOST))
               \<lparr>model_weights := Some (LinearModelWeights [0, 0, 0, 0] True),
                trace := [Review_models 0,
                          Broadcast_reconstruct_share sample_wb ''wb_0'',
                          Broadcast_reconstruct_share
                            \<lparr>tensor_name = ''wa_-1'', share_value = [1, 2, 3, 4]\<rparr> ''wa_0'']\<rparr>)"
  by (simp add: review_defs sample_defs guest_only_def)

text \<open>
  Claim C1, amended.  Under \<open>all_review_in_guest\<close> on HOST the bound is on \<open>w_remote\<close>,
  the share of GUEST's weights: with more than 2 entries there, \<open>review_models\<close> raises
  \<open>ValueError\<close> and nothing has been broadcast in that call; otherwise HOST broadcasts
  both shares, whatever the dimension of its own, and ends with zeros as weights.
\<close>

theorem review_models_guest_share_bound:
  "role s = HOST \<and> review_strategy (model_param s) = PyStr ''all_review_in_guest'' \<longrightarrow>
     (2 < length (share_value w_remote) \<longrightarrow>
        review_models x s w_self w_remote
        = Inl (ValueError ''Too many features in Guest. Review strategy: all_review_in_guest should not be used.'',
               s\<lparr>trace := trace s @ [Review_models (n_iter s)]\<rparr>))
     \<and> (length (share_value w_remote) \<le> 2 \<longrightarrow>
        review_models x s w_self w_remote
        = Inr (replicate (length (share_value w_self)) 0,
               s\<lparr>model_weights :=
                    Some (LinearModelWeights (replicate (length (share_value w_self)) 0)
                            (fit_intercept (init_param (model_param s)))),
                  trace := trace s @ [Review_models (n_iter s),
                             Broadcast_reconstruct_share w_remote (''wb_'' @ str_int (n_iter s)),
                             Broadcast_reconstruct_share w_self (''wa_'' @ str_int (n_iter s))]\<rparr>))"
  by (simp add: review_defs)

theorem review_models_guest_share_bound_witness:
  "role (guest_only (sample_lr HOST)) = HOST
   \<and> review_strategy (model_param (guest_only (sample_lr HOST))) = PyStr ''all_review_in_guest''
   \<and> 2 < length (share_value \<lparr>tensor_name = ''wb_-1'', share_value = [1, 2, 3]\<rparr>)
   \<and> review_models sample_collaborators (guest_only (sample_lr HOST)) sample_wa
        \<lparr>tensor_name = ''wb_-1'', share_value = [1, 2, 3]\<rparr>
      = Inl (ValueError ''Too many features in Guest. Review strategy: all_review_in_guest should not be used.'',
             (guest_only (sample_lr HOST))\<lparr>trace := [Review_models 0]\<rparr>)
   \<and> length (share_value sample_wb) \<le> 2
   \<and> trace (final_state (review_models sample_collaborators (guest_only (sample_lr HOST)) sample_wa sample_wb))
      = [Review_models 0, Broadcast_reconstruct_share sample_wb ''wb_0'',
         Broadcast_reconstruct_share sample_wa ''wa_0'']"
  using review_models_guest_share_bound
      [of "guest_only (sample_lr HOST)" "\<lparr>tensor_name = ''wb_-1'', share_value = [1, 2, 3]\<rparr>"
          sample_collaborators sample_wa]
    review_models_guest_share_bound
      [of "guest_only (sample_lr HOST)" sample_wb sample_collaborators sample_wa]
  by (simp add: guest_only_def sample_defs final_state_def)






lemma fit_binary_loop_not_entered:
  "\<not> n_iter s < self_max_iter s \<Longrightarrow>
   fit_binary_loop m x sp bs s w_self w_remote lm nw = Inr ((), s)"
  by (simp add: fit_binary_loop.simps [of m x sp bs s])

lemma fit_binary_loop_raises:
  "n_iter s < self_max_iter s \<Longrightarrow> epoch m x sp bs s w_self w_remote lm nw = Inl err \<Longrightarrow>
   fit_binary_loop m x sp bs s w_self w_remote lm nw = Inl err"
  by (simp add: fit_binary_loop.simps [of m x sp bs s])

lemma fit_binary_loop_after_epoch:
  assumes lt: "n_iter s < self_max_iter s"
    and ep: "epoch m x sp bs s w_self w_remote lm nw = Inr ((a, c, nw', brk), s1)"
  shows "n_iter s1 = n_iter s"
    and "epochs_completed s1 = epochs_completed s + 1"
    and "is_converged s1 = check_converge x lm nw' [PyInt (n_iter s)]"
    and "is_converged s1 \<or> (\<exists>v. validation_strategy s = Some v \<and> need_stop v (n_iter s)) \<Longrightarrow>
         fit_binary_loop m x sp bs s w_self w_remote lm nw = Inr ((), s1)"
    and "\<not> is_converged s1 \<Longrightarrow> \<not> (\<exists>v. validation_strategy s = Some v \<and> need_stop v (n_iter s)) \<Longrightarrow>
         fit_binary_loop m x sp bs s w_self w_remote lm nw
         = fit_binary_loop m x sp bs (s1\<lparr>n_iter := n_iter s + 1\<rparr>) a c
             (nw', hosted_model_weights s1) (Some nw')"
proof -
  note es = epoch_success [OF ep]
  show n: "n_iter s1 = n_iter s" using es(1) by (simp add: same_session_def)
  show "epochs_completed s1 = epochs_completed s + 1" by (rule es(4))
  show "is_converged s1 = check_converge x lm nw' [PyInt (n_iter s)]" by (rule es(2))
  show "fit_binary_loop m x sp bs s w_self w_remote lm nw = Inr ((), s1)"
    if "is_converged s1 \<or> (\<exists>v. validation_strategy s = Some v \<and> need_stop v (n_iter s))"
  proof -
    from that es(3) have brk by blast
    with lt ep show ?thesis by (simp add: fit_binary_loop.simps [of m x sp bs s])
  qed
  show "fit_binary_loop m x sp bs s w_self w_remote lm nw
         = fit_binary_loop m x sp bs (s1\<lparr>n_iter := n_iter s + 1\<rparr>) a c
             (nw', hosted_model_weights s1) (Some nw')"
    if "\<not> is_converged s1" "\<not> (\<exists>v. validation_strategy s = Some v \<and> need_stop v (n_iter s))"
  proof -
    from that es(3) have "\<not> brk" by blast
    with lt ep n show ?thesis by (simp add: fit_binary_loop.simps [of m x sp bs s])
  qed
qed

lemma fit_binary_loop_which_exit:
  "fit_binary_loop m x sp bs s w_self w_remote lm nw = Inr (u, s') \<Longrightarrow>
   (n_iter s < self_max_iter s \<longrightarrow>
      (n_iter s' < self_max_iter s
         \<and> (is_converged s' \<or> (\<exists>v. validation_strategy s = Some v \<and> need_stop v (n_iter s')))
         \<and> epochs_completed s' = epochs_completed s + nat (n_iter s' - n_iter s) + 1)
      \<or> (n_iter s' = self_max_iter s \<and> \<not> is_converged s'
         \<and> \<not> (\<exists>v. validation_strategy s = Some v \<and> need_stop v (n_iter s' - 1))
         \<and> epochs_completed s' = epochs_completed s + nat (n_iter s' - n_iter s)))
   \<and> (\<not> n_iter s < self_max_iter s \<longrightarrow> s' = s)"
proof (induction m x sp bs s w_self w_remote lm nw rule: fit_binary_loop.induct)
  case (1 m x sp bs s w_self w_remote lm nw)
  note run = "1.prems"
  show ?case
  proof (cases "n_iter s < self_max_iter s")
    case False
    then show ?thesis
      using run by (simp add: fit_binary_loop.simps [of m x sp bs s])
  next
    case lt: True
    show ?thesis
    proof (cases "epoch m x sp bs s w_self w_remote lm nw")
      case (Inl err)
      then show ?thesis
        using lt run by (simp add: fit_binary_loop.simps [of m x sp bs s])
    next
      case (Inr r)
      obtain a c nw' brk s1 where r: "r = ((a, c, nw', brk), s1)" by (cases r) auto
      note ep = Inr [unfolded r]
      note es = epoch_success [OF ep]
      note step = fit_binary_loop_after_epoch [OF lt ep]
      have keep: "self_max_iter s1 = self_max_iter s" "n_iter s1 = n_iter s"
        "validation_strategy s1 = validation_strategy s"
        using es(1) by (simp_all add: same_session_def)
      show ?thesis
      proof (cases brk)
        case True
        then have stop: "is_converged s1 \<or> (\<exists>v. validation_strategy s = Some v \<and> need_stop v (n_iter s))"
          using es(3) by blast
        from step(4) [OF stop] run have "s' = s1" by simp
        with stop keep step(2) lt show ?thesis by auto
      next
        case False
        then have go: "\<not> is_converged s1"
          "\<not> (\<exists>v. validation_strategy s = Some v \<and> need_stop v (n_iter s))"
          using es(3) by blast+
        define s2 where "s2 = s1\<lparr>n_iter := n_iter s1 + 1\<rparr>"
        have s2: "self_max_iter s2 = self_max_iter s" "n_iter s2 = n_iter s + 1"
          "validation_strategy s2 = validation_strategy s" "is_converged s2 = is_converged s1"
          "epochs_completed s2 = epochs_completed s + 1"
          using keep es(4) by (simp_all add: s2_def epochs_completed_def)
        have eq: "fit_binary_loop m x sp bs s2 a c (nw', hosted_model_weights s1) (Some nw') = Inr (u, s')"
          using step(5) [OF go] run keep by (simp add: s2_def)
        have IH: "(n_iter s2 < self_max_iter s2 \<longrightarrow>
              (n_iter s' < self_max_iter s2
                 \<and> (is_converged s' \<or> (\<exists>v. validation_strategy s2 = Some v \<and> need_stop v (n_iter s')))
                 \<and> epochs_completed s' = epochs_completed s2 + nat (n_iter s' - n_iter s2) + 1)
              \<or> (n_iter s' = self_max_iter s2 \<and> \<not> is_converged s'
                 \<and> \<not> (\<exists>v. validation_strategy s2 = Some v \<and> need_stop v (n_iter s' - 1))
                 \<and> epochs_completed s' = epochs_completed s2 + nat (n_iter s' - n_iter s2)))
           \<and> (\<not> n_iter s2 < self_max_iter s2 \<longrightarrow> s' = s2)"
          using "1.IH" [OF lt ep refl refl refl refl False, folded s2_def, OF eq] by simp
        have ge: "n_iter s2 \<le> n_iter s'"
          using fit_binary_loop_exit [OF eq] by simp
        show ?thesis
        proof (cases "n_iter s2 < self_max_iter s2")
          case True
          with IH s2 lt ge show ?thesis by auto
        next
          case False
          with IH have "s' = s2" by simp
          with False s2 go lt show ?thesis by auto
        qed
      qed
    qed
  qed
qed

text \<open>
  Claim C6.  The loop is a total function: with operations that return, it ends, by its
  condition, by a \<open>break\<close> or by an exception of the body.  It completes at most
  \<open>max_iter - n_iter_\<close> epochs, hence at most \<open>max_iter\<close> from a counter that is not
  negative.  When it returns, \<open>is_converged\<close> holds, or the counter has reached
  \<open>max_iter\<close>, or the validation strategy has asked to stop.  When the convergence check
  never succeeds and no stop is asked for, a run that returns ends with
  \<open>is_converged = False\<close> and the counter at \<open>max_iter\<close>, after exactly
  \<open>max_iter - n_iter_\<close> epochs.

  Each of the three conditions ends the loop.  With the counter at \<open>max_iter\<close> or beyond,
  the loop returns at once and leaves the model as it is.  After an epoch that completes,
  \<open>is_converged\<close> is the verdict of the convergence check of that epoch; if it holds, or
  if the validation strategy asks to stop, the loop returns at once, with the counter
  unchanged and one more epoch completed; if neither is the case, the counter advances by
  one and the loop goes on.  An exception of the body leaves the loop with that exception.
  So a run that enters the loop and returns has either left by a \<open>break\<close>, with the
  counter below \<open>max_iter\<close> and \<open>is_converged\<close> or a stop request for that epoch, or it has
  run out of epochs, with the counter at \<open>max_iter\<close>, \<open>is_converged = False\<close> and no stop
  request for the last epoch; the number of epochs completed is given in both cases.
\<close>

theorem fit_binary_loop_terminal_conditions:
  "epochs_completed (final_state (fit_binary_loop m x sp bs s w_self w_remote lm nw))
     \<le> epochs_completed s + nat (self_max_iter s - n_iter s)
   \<and> (0 \<le> n_iter s \<longrightarrow>
        epochs_completed (final_state (fit_binary_loop m x sp bs s w_self w_remote lm nw))
          \<le> epochs_completed s + nat (self_max_iter s))
   \<and> (\<forall>s'. fit_binary_loop m x sp bs s w_self w_remote lm nw = Inr ((), s') \<longrightarrow>
          is_converged s' \<or> self_max_iter s' \<le> n_iter s'
          \<or> (\<exists>v. validation_strategy s' = Some v \<and> need_stop v (n_iter s')))
   \<and> ((\<forall>lm' nw' sfx. \<not> check_converge x lm' nw' sfx)
        \<and> (\<forall>v k. validation_strategy s = Some v \<longrightarrow> \<not> need_stop v k)
        \<and> n_iter s < self_max_iter s \<longrightarrow>
        (\<forall>s'. fit_binary_loop m x sp bs s w_self w_remote lm nw = Inr ((), s') \<longrightarrow>
           \<not> is_converged s' \<and> n_iter s' = self_max_iter s
           \<and> epochs_completed s' = epochs_completed s + nat (self_max_iter s - n_iter s)))
   \<and> (\<not> n_iter s < self_max_iter s \<longrightarrow>
        fit_binary_loop m x sp bs s w_self w_remote lm nw = Inr ((), s))
   \<and> (\<forall>a c nw' brk s1.
        n_iter s < self_max_iter s
        \<and> epoch m x sp bs s w_self w_remote lm nw = Inr ((a, c, nw', brk), s1) \<longrightarrow>
          n_iter s1 = n_iter s \<and> epochs_completed s1 = epochs_completed s + 1
          \<and> is_converged s1 = check_converge x lm nw' [PyInt (n_iter s)]
          \<and> (is_converged s1 \<or> (\<exists>v. validation_strategy s = Some v \<and> need_stop v (n_iter s)) \<longrightarrow>
               fit_binary_loop m x sp bs s w_self w_remote lm nw = Inr ((), s1))
          \<and> (\<not> is_converged s1 \<and> \<not> (\<exists>v. validation_strategy s = Some v \<and> need_stop v (n_iter s)) \<longrightarrow>
               fit_binary_loop m x sp bs s w_self w_remote lm nw
               = fit_binary_loop m x sp bs (s1\<lparr>n_iter := n_iter s + 1\<rparr>) a c
                   (nw', hosted_model_weights s1) (Some nw')))
   \<and> (\<forall>err. n_iter s < self_max_iter s \<and> epoch m x sp bs s w_self w_remote lm nw = Inl err \<longrightarrow>
        fit_binary_loop m x sp bs s w_self w_remote lm nw = Inl err)
   \<and> (\<forall>s'. n_iter s < self_max_iter s
        \<and> fit_binary_loop m x sp bs s w_self w_remote lm nw = Inr ((), s') \<longrightarrow>
          (n_iter s' < self_max_iter s
             \<and> (is_converged s' \<or> (\<exists>v. validation_strategy s = Some v \<and> need_stop v (n_iter s')))
             \<and> epochs_completed s' = epochs_completed s + nat (n_iter s' - n_iter s) + 1)
          \<or> (n_iter s' = self_max_iter s \<and> \<not> is_converged s'
             \<and> \<not> (\<exists>v. validation_strategy s = Some v \<and> need_stop v (n_iter s' - 1))
             \<and> epochs_completed s' = epochs_completed s + nat (n_iter s' - n_iter s)))"
proof -
  have bound: "epochs_completed (final_state (fit_binary_loop m x sp bs s w_self w_remote lm nw))
     \<le> epochs_completed s + nat (self_max_iter s - n_iter s)"
    by (rule fit_binary_loop_epochs)
  then have bound0: "0 \<le> n_iter s \<longrightarrow>
        epochs_completed (final_state (fit_binary_loop m x sp bs s w_self w_remote lm nw))
          \<le> epochs_completed s + nat (self_max_iter s)"
    by linarith
  have post: "\<forall>s'. fit_binary_loop m x sp bs s w_self w_remote lm nw = Inr ((), s') \<longrightarrow>
          is_converged s' \<or> self_max_iter s' \<le> n_iter s'
          \<or> (\<exists>v. validation_strategy s' = Some v \<and> need_stop v (n_iter s'))"
    using fit_binary_loop_exit [of m x sp bs s w_self w_remote lm nw] by auto
  have never: "(\<forall>lm' nw' sfx. \<not> check_converge x lm' nw' sfx)
        \<and> (\<forall>v k. validation_strategy s = Some v \<longrightarrow> \<not> need_stop v k)
        \<and> n_iter s < self_max_iter s \<longrightarrow>
        (\<forall>s'. fit_binary_loop m x sp bs s w_self w_remote lm nw = Inr ((), s') \<longrightarrow>
           \<not> is_converged s' \<and> n_iter s' = self_max_iter s
           \<and> epochs_completed s' = epochs_completed s + nat (self_max_iter s - n_iter s))"
  proof (intro impI allI)
    fix s'
    assume h: "(\<forall>lm' nw' sfx. \<not> check_converge x lm' nw' sfx)
        \<and> (\<forall>v k. validation_strategy s = Some v \<longrightarrow> \<not> need_stop v k)
        \<and> n_iter s < self_max_iter s"
      and run: "fit_binary_loop m x sp bs s w_self w_remote lm nw = Inr ((), s')"
    have "(n_iter s < self_max_iter s \<longrightarrow>
            \<not> is_converged s' \<and> n_iter s' = self_max_iter s
            \<and> epochs_completed s' = epochs_completed s + nat (self_max_iter s - n_iter s))
         \<and> (\<not> n_iter s < self_max_iter s \<longrightarrow> s' = s)"
      by (rule fit_binary_loop_never_converged [OF _ _ run]) (use h in auto)
    with h show "\<not> is_converged s' \<and> n_iter s' = self_max_iter s
           \<and> epochs_completed s' = epochs_completed s + nat (self_max_iter s - n_iter s)"
      by simp
  qed
  have skip: "\<not> n_iter s < self_max_iter s \<longrightarrow>
        fit_binary_loop m x sp bs s w_self w_remote lm nw = Inr ((), s)"
    by (simp add: fit_binary_loop_not_entered)
  have step: "\<forall>a c nw' brk s1.
        n_iter s < self_max_iter s
        \<and> epoch m x sp bs s w_self w_remote lm nw = Inr ((a, c, nw', brk), s1) \<longrightarrow>
          n_iter s1 = n_iter s \<and> epochs_completed s1 = epochs_completed s + 1
          \<and> is_converged s1 = check_converge x lm nw' [PyInt (n_iter s)]
          \<and> (is_converged s1 \<or> (\<exists>v. validation_strategy s = Some v \<and> need_stop v (n_iter s)) \<longrightarrow>
               fit_binary_loop m x sp bs s w_self w_remote lm nw = Inr ((), s1))
          \<and> (\<not> is_converged s1 \<and> \<not> (\<exists>v. validation_strategy s = Some v \<and> need_stop v (n_iter s)) \<longrightarrow>
               fit_binary_loop m x sp bs s w_self w_remote lm nw
               = fit_binary_loop m x sp bs (s1\<lparr>n_iter := n_iter s + 1\<rparr>) a c
                   (nw', hosted_model_weights s1) (Some nw'))"
  proof (intro allI impI)
    fix a c nw' brk s1
    assume h: "n_iter s < self_max_iter s
        \<and> epoch m x sp bs s w_self w_remote lm nw = Inr ((a, c, nw', brk), s1)"
    then have lt: "n_iter s < self_max_iter s"
      and ep: "epoch m x sp bs s w_self w_remote lm nw = Inr ((a, c, nw', brk), s1)"
      by simp_all
    note st = fit_binary_loop_after_epoch [OF lt ep]
    show "n_iter s1 = n_iter s \<and> epochs_completed s1 = epochs_completed s + 1
          \<and> is_converged s1 = check_converge x lm nw' [PyInt (n_iter s)]
          \<and> (is_converged s1 \<or> (\<exists>v. validation_strategy s = Some v \<and> need_stop v (n_iter s)) \<longrightarrow>
               fit_binary_loop m x sp bs s w_self w_remote lm nw = Inr ((), s1))
          \<and> (\<not> is_converged s1 \<and> \<not> (\<exists>v. validation_strategy s = Some v \<and> need_stop v (n_iter s)) \<longrightarrow>
               fit_binary_loop m x sp bs s w_self w_remote lm nw
               = fit_binary_loop m x sp bs (s1\<lparr>n_iter := n_iter s + 1\<rparr>) a c
                   (nw', hosted_model_weights s1) (Some nw'))"
      using st(1) st(2) st(3) st(4) st(5) by blast
  qed
  have raises: "\<forall>err. n_iter s < self_max_iter s \<and> epoch m x sp bs s w_self w_remote lm nw = Inl err \<longrightarrow>
        fit_binary_loop m x sp bs s w_self w_remote lm nw = Inl err"
    by (simp add: fit_binary_loop_raises)
  have which: "\<forall>s'. n_iter s < self_max_iter s
        \<and> fit_binary_loop m x sp bs s w_self w_remote lm nw = Inr ((), s') \<longrightarrow>
          (n_iter s' < self_max_iter s
             \<and> (is_converged s' \<or> (\<exists>v. validation_strategy s = Some v \<and> need_stop v (n_iter s')))
             \<and> epochs_completed s' = epochs_completed s + nat (n_iter s' - n_iter s) + 1)
          \<or> (n_iter s' = self_max_iter s \<and> \<not> is_converged s'
             \<and> \<not> (\<exists>v. validation_strategy s = Some v \<and> need_stop v (n_iter s' - 1))
             \<and> epochs_completed s' = epochs_completed s + nat (n_iter s' - n_iter s))"
    using fit_binary_loop_which_exit [of m x sp bs s w_self w_remote lm nw] by blast
  from bound bound0 post never skip step raises which show ?thesis by blast
qed

lemma sample_fit_binary_loop:
  "fit_binary_loop sample_variant sample_collaborators (sample_spdz GUEST) [()] (sample_lr GUEST)
     sample_wb sample_wa ([], []) None
   = Inr ((),
          (sample_lr GUEST)
            \<lparr>n_iter := 1,
             model_weights := Some (LinearModelWeights [0] True),
             trace := [Cal_prediction sample_wb sample_wa [PyInt 0, PyInt 0],
                       Compute_gradient sample_wa sample_wb [PyInt 0, PyInt 0],
                       Review_models 0,
                       Reconstruct_unilateral sample_wb ''wb_0'',
                       Broadcast_reconstruct_share sample_wa ''wa_0'',
                       Check_converge [PyInt 0]]\<rparr>)"
  by (simp add: run_defs sample_defs fit_binary_loop.simps)

lemma sample_epoch_stop:
  "epoch sample_variant sample_collaborators (sample_spdz GUEST) [()]
     ((sample_lr GUEST)\<lparr>self_max_iter := 3, validation_strategy := Some sample_validation\<rparr>)
     sample_wb sample_wa ([], []) None
   = Inr ((sample_wb, sample_wa, [0], True),
          (sample_lr GUEST)
            \<lparr>self_max_iter := 3, validation_strategy := Some sample_validation,
             model_weights := Some (LinearModelWeights [0] True),
             trace := [Cal_prediction sample_wb sample_wa [PyInt 0, PyInt 0],
                       Compute_gradient sample_wa sample_wb [PyInt 0, PyInt 0],
                       Review_models 0,
                       Reconstruct_unilateral sample_wb ''wb_0'',
                       Broadcast_reconstruct_share sample_wa ''wa_0'',
                       Check_converge [PyInt 0],
                       Validate 0]\<rparr>)"
  by (simp add: run_defs sample_defs sample_validation_def)

lemma sample_epoch_converged:
  "epoch sample_variant converging_collaborators (sample_spdz GUEST) [()]
     ((sample_lr GUEST)\<lparr>self_max_iter := 3\<rparr>) sample_wb sample_wa ([], []) None
   = Inr ((sample_wb, sample_wa, [0], True),
          (sample_lr GUEST)
            \<lparr>self_max_iter := 3, is_converged := True,
             model_weights := Some (LinearModelWeights [0] True),
             trace := [Cal_prediction sample_wb sample_wa [PyInt 0, PyInt 0],
                       Compute_gradient sample_wa sample_wb [PyInt 0, PyInt 0],
                       Review_models 0,
                       Reconstruct_unilateral sample_wb ''wb_0'',
                       Broadcast_reconstruct_share sample_wa ''wa_0'',
                       Check_converge [PyInt 0]]\<rparr>)"
  by (simp add: run_defs sample_defs converging_collaborators_def)

theorem fit_binary_loop_terminal_conditions_witness:
  "(\<forall>lm' nw' sfx. \<not> check_converge sample_collaborators lm' nw' sfx)
   \<and> validation_strategy (sample_lr GUEST) = None
   \<and> 0 \<le> n_iter (sample_lr GUEST) \<and> n_iter (sample_lr GUEST) < self_max_iter (sample_lr GUEST)
   \<and> \<not> isl (fit_binary_loop sample_variant sample_collaborators (sample_spdz GUEST) [()] (sample_lr GUEST)
               sample_wb sample_wa ([], []) None)
   \<and> \<not> is_converged (final_state (fit_binary_loop sample_variant sample_collaborators (sample_spdz GUEST)
                                      [()] (sample_lr GUEST) sample_wb sample_wa ([], []) None))
   \<and> n_iter (final_state (fit_binary_loop sample_variant sample_collaborators (sample_spdz GUEST)
                             [()] (sample_lr GUEST) sample_wb sample_wa ([], []) None)) = 1
   \<and> epochs_completed (final_state (fit_binary_loop sample_variant sample_collaborators (sample_spdz GUEST)
                             [()] (sample_lr GUEST) sample_wb sample_wa ([], []) None)) = 1
   \<and> n_iter ((sample_lr GUEST)\<lparr>self_max_iter := 3, validation_strategy := Some sample_validation\<rparr>)
       < self_max_iter ((sample_lr GUEST)\<lparr>self_max_iter := 3, validation_strategy := Some sample_validation\<rparr>)
   \<and> need_stop sample_validation 0
   \<and> fit_binary_loop sample_variant sample_collaborators (sample_spdz GUEST) [()]
        ((sample_lr GUEST)\<lparr>self_max_iter := 3, validation_strategy := Some sample_validation\<rparr>)
        sample_wb sample_wa ([], []) None
      = Inr ((),
          (sample_lr GUEST)
            \<lparr>self_max_iter := 3, validation_strategy := Some sample_validation,
             model_weights := Some (LinearModelWeights [0] True),
             trace := [Cal_prediction sample_wb sample_wa [PyInt 0, PyInt 0],
                       Compute_gradient sample_wa sample_wb [PyInt 0, PyInt 0],
                       Review_models 0,
                       Reconstruct_unilateral sample_wb ''wb_0'',
                       Broadcast_reconstruct_share sample_wa ''wa_0'',
                       Check_converge [PyInt 0],
                       Validate 0]\<rparr>)
   \<and> n_iter ((sample_lr GUEST)\<lparr>self_max_iter := 3\<rparr>) < self_max_iter ((sample_lr GUEST)\<lparr>self_max_iter := 3\<rparr>)
   \<and> check_converge converging_collaborators ([], []) [0] [PyInt 0]
   \<and> fit_binary_loop sample_variant converging_collaborators (sample_spdz GUEST) [()]
        ((sample_lr GUEST)\<lparr>self_max_iter := 3\<rparr>) sample_wb sample_wa ([], []) None
      = Inr ((),
          (sample_lr GUEST)
            \<lparr>self_max_iter := 3, is_converged := True,
             model_weights := Some (LinearModelWeights [0] True),
             trace := [Cal_prediction sample_wb sample_wa [PyInt 0, PyInt 0],
                       Compute_gradient sample_wa sample_wb [PyInt 0, PyInt 0],
                       Review_models 0,
                       Reconstruct_unilateral sample_wb ''wb_0'',
                       Broadcast_reconstruct_share sample_wa ''wa_0'',
                       Check_converge [PyInt 0]]\<rparr>)"
proof -
  have run1: "\<not> isl (fit_binary_loop sample_variant sample_collaborators (sample_spdz GUEST) [()] (sample_lr GUEST)
               sample_wb sample_wa ([], []) None)
   \<and> \<not> is_converged (final_state (fit_binary_loop sample_variant sample_collaborators (sample_spdz GUEST)
                                      [()] (sample_lr GUEST) sample_wb sample_wa ([], []) None))
   \<and> n_iter (final_state (fit_binary_loop sample_variant sample_collaborators (sample_spdz GUEST)
                             [()] (sample_lr GUEST) sample_wb sample_wa ([], []) None)) = 1
   \<and> epochs_completed (final_state (fit_binary_loop sample_variant sample_collaborators (sample_spdz GUEST)
                             [()] (sample_lr GUEST) sample_wb sample_wa ([], []) None)) = 1"
    using fit_binary_loop_terminal_conditions
      [of sample_variant sample_collaborators "sample_spdz GUEST" "[()]" "sample_lr GUEST"
          sample_wb sample_wa "([], [])" None]
      sample_fit_binary_loop
    by (simp add: final_state_def sample_lr_def sample_collaborators_def epochs_completed_def)
  have lt2: "n_iter ((sample_lr GUEST)\<lparr>self_max_iter := 3, validation_strategy := Some sample_validation\<rparr>)
       < self_max_iter ((sample_lr GUEST)\<lparr>self_max_iter := 3, validation_strategy := Some sample_validation\<rparr>)"
    by (simp add: sample_lr_def)
  have stop: "need_stop sample_validation 0" by (simp add: sample_validation_def)
  have stop': "\<exists>v. validation_strategy ((sample_lr GUEST)\<lparr>self_max_iter := 3, validation_strategy := Some sample_validation\<rparr>) = Some v
       \<and> need_stop v (n_iter ((sample_lr GUEST)\<lparr>self_max_iter := 3, validation_strategy := Some sample_validation\<rparr>))"
    using stop by (simp add: sample_lr_def)
  have run2: "fit_binary_loop sample_variant sample_collaborators (sample_spdz GUEST) [()]
        ((sample_lr GUEST)\<lparr>self_max_iter := 3, validation_strategy := Some sample_validation\<rparr>)
        sample_wb sample_wa ([], []) None
      = Inr ((),
          (sample_lr GUEST)
            \<lparr>self_max_iter := 3, validation_strategy := Some sample_validation,
             model_weights := Some (LinearModelWeights [0] True),
             trace := [Cal_prediction sample_wb sample_wa [PyInt 0, PyInt 0],
                       Compute_gradient sample_wa sample_wb [PyInt 0, PyInt 0],
                       Review_models 0,
                       Reconstruct_unilateral sample_wb ''wb_0'',
                       Broadcast_reconstruct_share sample_wa ''wa_0'',
                       Check_converge [PyInt 0],
                       Validate 0]\<rparr>)"
    using fit_binary_loop_terminal_conditions
      [of sample_variant sample_collaborators "sample_spdz GUEST" "[()]"
          "(sample_lr GUEST)\<lparr>self_max_iter := 3, validation_strategy := Some sample_validation\<rparr>"
          sample_wb sample_wa "([], [])" None]
      lt2 stop' sample_epoch_stop
    by blast
  have lt3: "n_iter ((sample_lr GUEST)\<lparr>self_max_iter := 3\<rparr>) < self_max_iter ((sample_lr GUEST)\<lparr>self_max_iter := 3\<rparr>)"
    by (simp add: sample_lr_def)
  have conv: "check_converge converging_collaborators ([], []) [0] [PyInt 0]"
    by (simp add: converging_collaborators_def)
  have conv': "is_converged ((sample_lr GUEST)
            \<lparr>self_max_iter := 3, is_converged := True,
             model_weights := Some (LinearModelWeights [0] True),
             trace := [Cal_prediction sample_wb sample_wa [PyInt 0, PyInt 0],
                       Compute_gradient sample_wa sample_wb [PyInt 0, PyInt 0],
                       Review_models 0,
                       Reconstruct_unilateral sample_wb ''wb_0'',
                       Broadcast_reconstruct_share sample_wa ''wa_0'',
                       Check_converge [PyInt 0]]\<rparr>)"
    by simp
  have run3: "fit_binary_loop sample_variant converging_collaborators (sample_spdz GUEST) [()]
        ((sample_lr GUEST)\<lparr>self_max_iter := 3\<rparr>) sample_wb sample_wa ([], []) None
      = Inr ((),
          (sample_lr GUEST)
            \<lparr>self_max_iter := 3, is_converged := True,
             model_weights := Some (LinearModelWeights [0] True),
             trace := [Cal_prediction sample_wb sample_wa [PyInt 0, PyInt 0],
                       Compute_gradient sample_wa sample_wb [PyInt 0, PyInt 0],
                       Review_models 0,
                       Reconstruct_unilateral sample_wb ''wb_0'',
                       Broadcast_reconstruct_share sample_wa ''wa_0'',
                       Check_converge [PyInt 0]]\<rparr>)"
    using fit_binary_loop_terminal_conditions
      [of sample_variant converging_collaborators "sample_spdz GUEST" "[()]"
          "(sample_lr GUEST)\<lparr>self_max_iter := 3\<rparr>" sample_wb sample_wa "([], [])" None]
      lt3 conv' sample_epoch_converged
    by blast
  have base: "(\<forall>lm' nw' sfx. \<not> check_converge sample_collaborators lm' nw' sfx)
     \<and> validation_strategy (sample_lr GUEST) = None
     \<and> 0 \<le> n_iter (sample_lr GUEST) \<and> n_iter (sample_lr GUEST) < self_max_iter (sample_lr GUEST)"
    by (simp add: sample_lr_def sample_collaborators_def)
  from base run1 lt2 stop run2 lt3 conv run3 show ?thesis by blast
qed


section \<open>Properties of model persistence\<close>

lemma fill_weight_dict_lookup:
  "idx + length hs \<le> length (coef w) \<Longrightarrow>
   \<exists>d'. fill_weight_dict (Some w) d idx hs = Inr d'
        \<and> (distinct hs \<longrightarrow> (\<forall>j<length hs. d' (hs ! j) = Some (coef w ! (idx + j))))
        \<and> (\<forall>k. k \<notin> set hs \<longrightarrow> d' k = d k)"
proof (induction hs arbitrary: d idx)
  case Nil
  then show ?case by simp
next
  case (Cons h hs)
  define d1 where "d1 = d(h \<mapsto> coef w ! idx)"
  have len: "Suc idx + length hs \<le> length (coef w)" and lt: "idx < length (coef w)"
    using Cons.prems by simp_all
  from Cons.IH [OF len, of d1] obtain d' where
    run: "fill_weight_dict (Some w) d1 (Suc idx) hs = Inr d'"
    and look: "distinct hs \<longrightarrow> (\<forall>j<length hs. d' (hs ! j) = Some (coef w ! (Suc idx + j)))"
    and other: "\<forall>k. k \<notin> set hs \<longrightarrow> d' k = d1 k"
    by blast
  have eq: "fill_weight_dict (Some w) d idx (h # hs) = Inr d'"
    using lt run by (simp add: d1_def)
  have "d' ((h # hs) ! j) = Some (coef w ! (idx + j))"
    if dist: "distinct (h # hs)" and j: "j < length (h # hs)" for j
  proof (cases j)
    case 0
    have "h \<notin> set hs" using dist by simp
    with other have "d' h = d1 h" by simp
    with 0 show ?thesis by (simp add: d1_def)
  next
    case (Suc j')
    with dist j look show ?thesis by simp
  qed
  moreover have "\<forall>k. k \<notin> set (h # hs) \<longrightarrow> d' k = d k"
    using other by (simp add: d1_def)
  ultimately show ?case using eq by blast
qed

lemma load_vars_result:
  "idx + length hs \<le> length tmp \<Longrightarrow>
   load_vars d tmp idx hs
   = take idx tmp @ map (\<lambda>h. case d h of None \<Rightarrow> NaN | Some v \<Rightarrow> v) hs
       @ drop (idx + length hs) tmp"
proof (induction hs arbitrary: tmp idx)
  case Nil
  then show ?case by simp
next
  case (Cons h hs)
  define v where "v = (case d h of None \<Rightarrow> NaN | Some v \<Rightarrow> v)"
  have lt: "idx < length tmp" using Cons.prems by simp
  have len: "Suc idx + length hs \<le> length (tmp[idx := v])" using Cons.prems by simp
  have "load_vars d tmp idx (h # hs) = load_vars d (tmp[idx := v]) (Suc idx) hs"
    by (simp add: v_def)
  also have "\<dots> = take (Suc idx) (tmp[idx := v]) @ map (\<lambda>h. case d h of None \<Rightarrow> NaN | Some v \<Rightarrow> v) hs
                        @ drop (Suc idx + length hs) (tmp[idx := v])"
    by (rule Cons.IH [OF len])
  also have "take (Suc idx) (tmp[idx := v]) = take idx tmp @ [v]"
    using lt by (simp add: take_Suc_conv_app_nth)
  also have "drop (Suc idx + length hs) (tmp[idx := v]) = drop (idx + length (h # hs)) tmp"
    by simp
  finally show ?case by (simp add: v_def)
qed

lemma weights_rebuilt:
  assumes "weights_fit_intercept mw \<longrightarrow> unboxed mw \<noteq> []"
  shows "LinearModelWeights
           (if weights_fit_intercept mw then coef mw @ [last (unboxed mw)] else coef mw)
           (weights_fit_intercept mw) = mw"
  using assms by (simp add: LinearModelWeights_def coef_def)

text \<open>
  Claim C10, amended.  Let the names of the header be pairwise distinct, as many as
  there are coefficients, and let the intercept that \<open>get_single_model_param\<close> reads from
  \<open>self.model_weights\<close> be the one of the weights persisted (it is when no weights
  argument is given).  Then the dictionary \<open>get_single_model_param\<close> produces, turned into
  a parameter record and loaded by \<open>load_single_model\<close> into a model with the same header
  and the same \<open>fit_intercept\<close>, restores exactly the weights, the intercept as the last
  entry if and only if \<open>fit_intercept\<close> is set, and the iteration counter.
\<close>

theorem persistence_round_trip:
  "(case mwa of Some w \<Rightarrow> Some w | None \<Rightarrow> model_weights s) = Some mw
   \<and> (case ha of None \<Rightarrow> header s | Some h \<Rightarrow> (if h \<noteq> [] then h else header s)) = hdr
   \<and> model_weights s = Some smw \<and> intercept smw = Inr b
   \<and> (weights_fit_intercept mw \<longrightarrow> unboxed mw \<noteq> [] \<and> last (unboxed mw) = b)
   \<and> distinct hdr \<and> length (coef mw) = length hdr
   \<and> header t = hdr \<and> self_fit_intercept t = weights_fit_intercept mw \<longrightarrow>
     (\<exists>result. get_single_model_param s mwa ha = Inr result
          \<and> result_iters result = n_iter s \<and> result_header result = hdr
          \<and> result_intercept result = b
          \<and> (\<forall>j<length hdr. result_weight result (hdr ! j) = Some (coef mw ! j))
          \<and> load_single_model t (parameter_record result)
              = t\<lparr>model_weights := Some mw, n_iter := n_iter s\<rparr>)"
proof
  assume h: "(case mwa of Some w \<Rightarrow> Some w | None \<Rightarrow> model_weights s) = Some mw
   \<and> (case ha of None \<Rightarrow> header s | Some h \<Rightarrow> (if h \<noteq> [] then h else header s)) = hdr
   \<and> model_weights s = Some smw \<and> intercept smw = Inr b
   \<and> (weights_fit_intercept mw \<longrightarrow> unboxed mw \<noteq> [] \<and> last (unboxed mw) = b)
   \<and> distinct hdr \<and> length (coef mw) = length hdr
   \<and> header t = hdr \<and> self_fit_intercept t = weights_fit_intercept mw"
  then have mw: "(case mwa of Some w \<Rightarrow> Some w | None \<Rightarrow> model_weights s) = Some mw"
    and hdr: "(case ha of None \<Rightarrow> header s | Some h \<Rightarrow> (if h \<noteq> [] then h else header s)) = hdr"
    and smw: "model_weights s = Some smw" "intercept smw = Inr b"
    and fi: "weights_fit_intercept mw \<longrightarrow> unboxed mw \<noteq> [] \<and> last (unboxed mw) = b"
    and dist: "distinct hdr" and len: "length (coef mw) = length hdr"
    and t: "header t = hdr" "self_fit_intercept t = weights_fit_intercept mw"
    by simp_all
  from fill_weight_dict_lookup [of 0 hdr mw Map.empty] len dist obtain d' where
    fill: "fill_weight_dict (Some mw) Map.empty 0 hdr = Inr d'"
    and look: "\<forall>j<length hdr. d' (hdr ! j) = Some (coef mw ! j)"
    by auto
  define r where "r = \<lparr> result_iters = n_iter s, result_loss_history = loss_history s,
      result_is_converged = is_converged s, result_weight = d', result_intercept = b,
      result_header = hdr,
      result_best_iteration = (case validation_strategy s of None \<Rightarrow> - 1 | Some v \<Rightarrow> best_iteration v) \<rparr>"
  have get: "get_single_model_param s mwa ha = Inr r"
    using mw hdr smw fill by (simp add: get_single_model_param_def Let_def r_def)
  have "map (\<lambda>h. case d' h of None \<Rightarrow> NaN | Some v \<Rightarrow> v) hdr = coef mw"
    using look len by (intro nth_equalityI) simp_all
  then have vars: "load_vars d' (replicate (length hdr) 0) 0 hdr = coef mw"
    using load_vars_result [of 0 hdr "replicate (length hdr) 0" d'] by simp
  have "load_single_model t (parameter_record r)
        = t\<lparr>model_weights :=
                Some (LinearModelWeights
                        (if weights_fit_intercept mw then coef mw @ [b] else coef mw)
                        (weights_fit_intercept mw)),
              n_iter := n_iter s\<rparr>"
    using vars t by (simp add: load_single_model_def parameter_record_def Let_def r_def)
  also have "LinearModelWeights (if weights_fit_intercept mw then coef mw @ [b] else coef mw)
               (weights_fit_intercept mw) = mw"
    using weights_rebuilt [of mw] fi by auto
  finally have load: "load_single_model t (parameter_record r)
                      = t\<lparr>model_weights := Some mw, n_iter := n_iter s\<rparr>" .
  have "result_iters r = n_iter s" "result_header r = hdr" "result_intercept r = b"
    "\<forall>j<length hdr. result_weight r (hdr ! j) = Some (coef mw ! j)"
    using look by (simp_all add: r_def)
  with get load show "\<exists>result. get_single_model_param s mwa ha = Inr result
          \<and> result_iters result = n_iter s \<and> result_header result = hdr
          \<and> result_intercept result = b
          \<and> (\<forall>j<length hdr. result_weight result (hdr ! j) = Some (coef mw ! j))
          \<and> load_single_model t (parameter_record result)
              = t\<lparr>model_weights := Some mw, n_iter := n_iter s\<rparr>"
    by blast
qed

lemmas persistence_defs = persist_and_load_def get_single_model_param_def load_single_model_def
  parameter_record_def LinearModelWeights_def coef_def intercept_def Let_def

text \<open>
  Claim C10, as stated, fails for a header that names a feature twice: the dictionary
  keeps one coefficient per name, and both positions are restored from the later one.
\<close>

theorem persistence_round_trip_duplicate_header_counterexample:
  "length (coef (LinearModelWeights [Float 1, Float 2] False)) = length [''x0'', ''x0'']
   \<and> persist_and_load
        ((sample_lr GUEST)\<lparr>header := [''x0'', ''x0''],
                            model_weights := Some (LinearModelWeights [Float 1, Float 2] False)\<rparr>)
        ((sample_lr GUEST)\<lparr>header := [''x0'', ''x0'']\<rparr>)
      = Inr ((sample_lr GUEST)\<lparr>header := [''x0'', ''x0''],
                                 model_weights := Some (LinearModelWeights [Float 2, Float 2] False)\<rparr>)
   \<and> LinearModelWeights [Float 2, Float 2] False \<noteq> LinearModelWeights [Float 1, Float 2] False"
  by (simp add: persistence_defs sample_lr_def)

theorem persistence_round_trip_witness:
  "distinct [''x0'', ''x1'']
   \<and> length (coef (LinearModelWeights [Float 1, Float 2, Float 3] True)) = length [''x0'', ''x1'']
   \<and> persist_and_load
        ((sample_lr GUEST)\<lparr>header := [''x0'', ''x1''], n_iter := 7,
                            model_weights := Some (LinearModelWeights [Float 1, Float 2, Float 3] True)\<rparr>)
        ((sample_lr HOST)\<lparr>header := [''x0'', ''x1''], self_fit_intercept := True\<rparr>)
      = Inr ((sample_lr HOST)\<lparr>header := [''x0'', ''x1''], self_fit_intercept := True,
                                model_weights := Some (LinearModelWeights [Float 1, Float 2, Float 3] True),
                                n_iter := 7\<rparr>)"
proof -
  have i: "intercept (LinearModelWeights [Float 1, Float 2, Float 3] True) = Inr (Float 3)"
    by (simp add: intercept_def LinearModelWeights_def)
  have c: "length (coef (LinearModelWeights [Float 1, Float 2, Float 3] True)) = length [''x0'', ''x1'']"
    by (simp add: coef_def LinearModelWeights_def)
  have f: "weights_fit_intercept (LinearModelWeights [Float 1, Float 2, Float 3] True)"
    "unboxed (LinearModelWeights [Float 1, Float 2, Float 3] True) = [Float 1, Float 2, Float 3]"
    by (simp_all add: LinearModelWeights_def)
  show ?thesis
    using persistence_round_trip
      [where s = "(sample_lr GUEST)\<lparr>header := [''x0'', ''x1''], n_iter := 7,
                            model_weights := Some (LinearModelWeights [Float 1, Float 2, Float 3] True)\<rparr>"
         and t = "(sample_lr HOST)\<lparr>header := [''x0'', ''x1''], self_fit_intercept := True\<rparr>"
         and mwa = None and ha = None and mw = "LinearModelWeights [Float 1, Float 2, Float 3] True"
         and smw = "LinearModelWeights [Float 1, Float 2, Float 3] True" and b = "Float 3"
         and hdr = "[''x0'', ''x1'']"]
      i c f
    by (auto simp: persist_and_load_def sample_lr_def)
qed

end
